theory Spec2Isabelle
  imports Main
begin

section \<open>Resource loading (src/net/resources.js)\<close>

text \<open>
  A shallow embedding of \<^verbatim>\<open>spf.net.resources\<close>: \<^verbatim>\<open>load\<close>, \<^verbatim>\<open>load_\<close>,
  \<^verbatim>\<open>unload\<close>, \<^verbatim>\<open>unload_\<close>, \<^verbatim>\<open>ignore\<close> and \<^verbatim>\<open>prefetch\<close>.
  The module keeps no state of its own: everything lives in the document, in the
  publish/subscribe registry and in the engine's timer queue. The model makes that state
  explicit and passes it through every function.

  \<^item> A DOM element is an object with identity: a reference (an index into the heap of
    allocated elements). Removing an element from the document does not destroy it.
  \<^item> A document is its \<^verbatim>\<open>head\<close> (which may be missing) and its \<^verbatim>\<open>body\<close>, each a list
    of child references in document order.
  \<^item> A callback is an opaque identifier; calling it is recorded in the trace. What the
    callback's own code then does to the page is not part of the module and not modelled.
  \<^item> A JavaScript exception is a value: functions that may throw return
    \<open>exn option \<times> state\<close>, the state being the one reached when the exception left.
  \<^item> The trace records, in order, what the module does to the world outside it: each
    subscription, publication and clearing of a topic, each call of a callback, each
    setting of the marker, each insertion and removal of an element, each task queued.
\<close>

subsection \<open>Data\<close>

type_synonym ref = nat

type_synonym callback = nat

datatype exn = TypeError

text \<open>
  The completion closure built by \<^verbatim>\<open>load\<close> (lines 75-85). It closes over the variable
  \<^verbatim>\<open>el\<close>, the list \<^verbatim>\<open>elsToRemove\<close> and \<^verbatim>\<open>id\<close>.
\<close>

datatype hook = Hook ref "ref list" string

text \<open>
  What \<^verbatim>\<open>setTimeout(f, 0)\<close> queues: the completion closure (line 120), or the deferred
  body of \<^verbatim>\<open>prefetch\<close> (lines 239-260), which closes over \<^verbatim>\<open>type\<close>, \<^verbatim>\<open>url\<close>,
  \<^verbatim>\<open>id\<close> and \<^verbatim>\<open>iframeEl\<close>.
\<close>

datatype task = Completion hook | Deferred_prefetch string string string ref

datatype effect =
    Subscribed string callback
  | Published string
  | Cleared string
  | Called callback
  | Marked ref
  | Removed ref
  | Inserted ref
  | Scheduled task

text \<open>
  An element. \<open>loaded\<close> is the out-of-band marker \<^verbatim>\<open>dataset 'loaded'\<close>; \<open>fn\<close> is the
  completion function captured by the \<^verbatim>\<open>onload\<close> handler that \<^verbatim>\<open>load_\<close> attaches
  (\<open>None\<close>: the handler was given no function, or the element has no such handler);
  \<open>content\<close> is, for an iframe, the index of its content document.
\<close>

record element =
  tagName :: string
  ident :: string
  className :: string
  rel :: string
  src :: string
  href :: string
  data :: string
  loaded :: "string option"
  fn :: "hook option"
  content :: "nat option"

record document =
  head :: "ref list option"
  body :: "ref list"

record state =
  heap :: "element list"
  doc :: document
  frames :: "document list"
  topics :: "string \<Rightarrow> callback list"
  timers :: "task list"
  trace :: "effect list"

subsection \<open>The document\<close>

definition nodes :: "document \<Rightarrow> ref list" where
  "nodes d = (case head d of None \<Rightarrow> [] | Some hs \<Rightarrow> hs) @ body d"

text \<open>\<^verbatim>\<open>getElementById\<close>: the first element, in document order, with that id.\<close>

definition getElementById :: "state \<Rightarrow> document \<Rightarrow> string \<Rightarrow> ref option" where
  "getElementById s d i = find (\<lambda>r. ident (heap s ! r) = i) (nodes d)"

text \<open>
  \<^verbatim>\<open>parentNode\<close> is null exactly when the element is in no document. \<^verbatim>\<open>removeChild\<close>
  takes the element out of its parent's child list; an element has one parent at most,
  so the model removes it wherever it stands.
\<close>

definition attached :: "ref \<Rightarrow> state \<Rightarrow> bool" where
  "attached r s = (r \<in> set (nodes (doc s)) \<or> (\<exists>d \<in> set (frames s). r \<in> set (nodes d)))"

definition remove_from :: "ref \<Rightarrow> document \<Rightarrow> document" where
  "remove_from r d = d\<lparr>head := map_option (removeAll r) (head d), body := removeAll r (body d)\<rparr>"

definition removeChild :: "ref \<Rightarrow> state \<Rightarrow> state" where
  "removeChild r s =
     s\<lparr>doc := remove_from r (doc s),
       frames := map (remove_from r) (frames s),
       trace := trace s @ [Removed r]\<rparr>"

text \<open>
  Insertion by \<^verbatim>\<open>load_\<close> (lines 143-152): the target is the head if there is one, else
  the body; a script goes before the first child, a stylesheet after the last.
\<close>

definition insert_el :: "string \<Rightarrow> ref \<Rightarrow> document \<Rightarrow> document" where
  "insert_el type r d =
     (case head d of
        Some hs \<Rightarrow> d\<lparr>head := Some (if type = ''js'' then r # hs else hs @ [r])\<rparr>
      | None \<Rightarrow> d\<lparr>body := (if type = ''js'' then r # body d else body d @ [r])\<rparr>)"

subsection \<open>Collaborators\<close>

text \<open>
  Modelled from the spec: \<^verbatim>\<open>spf.dom.dataset\<close> (the Marker Store, section 6:
  \<^verbatim>\<open>get(element, key)\<close> gives the value or absent, \<^verbatim>\<open>set(element, key, value)\<close>);
  only the key \<^verbatim>\<open>'loaded'\<close> is ever used.
\<close>

definition dataset_get :: "ref \<Rightarrow> state \<Rightarrow> string option" where
  "dataset_get r s = loaded (heap s ! r)"

definition dataset_set :: "ref \<Rightarrow> string \<Rightarrow> state \<Rightarrow> state" where
  "dataset_set r v s =
     s\<lparr>heap := (heap s)[r := (heap s ! r)\<lparr>loaded := Some v\<rparr>],
       trace := trace s @ [Marked r]\<rparr>"

text \<open>JavaScript truthiness of a marker value: absent and the empty string are falsy.\<close>

definition truthy :: "string option \<Rightarrow> bool" where
  "truthy v = (case v of None \<Rightarrow> False | Some x \<Rightarrow> x \<noteq> [])"

text \<open>
  Modelled from the spec: \<^verbatim>\<open>spf.pubsub\<close> (the Completion Notifier, section 6):
  \<^verbatim>\<open>subscribe(topic, fn)\<close>; \<^verbatim>\<open>publish(topic)\<close> runs and then clears all subscribers
  for the topic, in registration order; \<^verbatim>\<open>clear(topic)\<close> drops the subscribers without
  running them.
\<close>

definition pubsub_subscribe :: "string \<Rightarrow> callback \<Rightarrow> state \<Rightarrow> state" where
  "pubsub_subscribe i cb s =
     s\<lparr>topics := (topics s)(i := topics s i @ [cb]),
       trace := trace s @ [Subscribed i cb]\<rparr>"

definition pubsub_publish :: "string \<Rightarrow> state \<Rightarrow> state" where
  "pubsub_publish i s =
     s\<lparr>topics := (topics s)(i := []),
       trace := trace s @ Published i # map Called (topics s i)\<rparr>"

definition pubsub_clear :: "string \<Rightarrow> state \<Rightarrow> state" where
  "pubsub_clear i s =
     s\<lparr>topics := (topics s)(i := []),
       trace := trace s @ [Cleared i]\<rparr>"

text \<open>
  The \<^verbatim>\<open>class\<close> attribute is a list of tokens separated by white space (space, tab,
  line feed, form feed, carriage return).
\<close>

definition is_space :: "char \<Rightarrow> bool" where
  "is_space c = (c \<in> set [CHR 0x20, CHR 0x09, CHR 0x0A, CHR 0x0C, CHR 0x0D])"

function class_tokens :: "string \<Rightarrow> string list" where
  "class_tokens [] = []"
| "class_tokens (c # cs) =
     (if is_space c then class_tokens cs
      else (c # takeWhile (\<lambda>x. \<not> is_space x) cs)
             # class_tokens (dropWhile (\<lambda>x. \<not> is_space x) cs))"
  by pat_completeness auto
termination
  by (relation "measure length") (auto simp: length_dropWhile_le less_Suc_eq_le)

text \<open>
  A name that is one plain class token: a letter or an underscore, then letters, digits,
  hyphens and underscores. Such a name is a CSS identifier as it stands, so that
  \<^verbatim>\<open>tag + '.' + name\<close> is the selector of the elements with that tag whose class
  attribute has the name among its tokens.
\<close>

definition name_start :: "char \<Rightarrow> bool" where
  "name_start c =
     (c \<in> set (''abcdefghijklmnopqrstuvwxyz'' @ ''ABCDEFGHIJKLMNOPQRSTUVWXYZ'' @ ''_''))"

definition name_char :: "char \<Rightarrow> bool" where
  "name_char c = (name_start c \<or> c \<in> set ''0123456789-'')"

definition plain_token :: "string \<Rightarrow> bool" where
  "plain_token n = (case n of [] \<Rightarrow> False | c # cs \<Rightarrow> name_start c \<and> list_all name_char cs)"

text \<open>
  Modelled from the spec: \<^verbatim>\<open>spf.dom.query\<close> (the Element Query, section 6: find
  elements by tag name and class/name-tag within a document), as \<^verbatim>\<open>load\<close> calls it
  with the selector \<^verbatim>\<open>tag + '.' + cls\<close> (line 73): the elements with the tag that have
  \<open>cls\<close> among their class tokens, compared exactly. The result is a snapshot, in
  document order.

  This is what the selector means when \<open>cls\<close> is one plain class token. For any other
  name the string \<^verbatim>\<open>tag + '.' + cls\<close> is another selector (\<^verbatim>\<open>'main.v2'\<close> asks for two
  classes, a space makes a descendant selector) or no selector at all (\<^verbatim>\<open>'1main'\<close>
  makes the engine throw), and the model does not follow the code there: whatever is
  proved below about the contents of a snapshot is stated for plain class tokens only.
\<close>

definition query :: "state \<Rightarrow> string \<Rightarrow> string \<Rightarrow> ref list" where
  "query s tag cls =
     filter (\<lambda>r. tagName (heap s ! r) = tag \<and> cls \<in> set (class_tokens (className (heap s ! r))))
       (nodes (doc s))"

text \<open>
  Modelled from the spec: \<^verbatim>\<open>spf.dom.createIframe\<close> (the isolated browsing context
  factory, section 6: create a hidden, separately-scripted document context given a
  context id). The new iframe element carries the id, is appended to the body of the
  main document, and owns a fresh, empty content document.
\<close>

definition createIframe :: "string \<Rightarrow> state \<Rightarrow> ref \<times> state" where
  "createIframe i s =
     (let r = length (heap s);
          e = \<lparr>tagName = ''iframe'', ident = i, className = [], rel = [], src = [],
               href = [], data = [], loaded = None, fn = None,
               content = Some (length (frames s))\<rparr>
      in (r, s\<lparr>heap := heap s @ [e],
               doc := (doc s)\<lparr>body := body (doc s) @ [r]\<rparr>,
               frames := frames s @ [\<lparr>head = Some [], body = []\<rparr>],
               trace := trace s @ [Inserted r]\<rparr>))"

text \<open>\<^verbatim>\<open>setTimeout(f, 0)\<close>: the task joins the end of the timer queue.\<close>

definition setTimeout :: "task \<Rightarrow> state \<Rightarrow> state" where
  "setTimeout t s = s\<lparr>timers := timers s @ [t], trace := trace s @ [Scheduled t]\<rparr>"

text \<open>
  The Identity of a resource (lines 50, 171, 204, 221). \<^verbatim>\<open>spf.string.hashCode\<close> is not
  part of this module: it is the parameter \<open>h\<close>, the hash as the string concatenation
  renders it.
\<close>

definition identity :: "(string \<Rightarrow> string) \<Rightarrow> string \<Rightarrow> string \<Rightarrow> string" where
  "identity h type url = type @ ''-'' @ h url"

subsection \<open>The Loader: \<^verbatim>\<open>load_\<close> (lines 102-154)\<close>

text \<open>
  The private functions \<^verbatim>\<open>load_\<close> and \<^verbatim>\<open>unload_\<close> are \<open>load_priv\<close> and
  \<open>unload_priv\<close> here (a name cannot end with an underscore).

  \<^verbatim>\<open>fn\<close> is given as a function of the element being created: the closure that
  \<^verbatim>\<open>load\<close> passes refers to the variable \<^verbatim>\<open>el\<close>, which holds the returned element by
  the time the closure can run. \<open>opt_document\<close> is \<open>None\<close> for the main document and
  \<open>Some k\<close> for the content document \<open>k\<close>.
\<close>

definition load_priv ::
  "string \<Rightarrow> string \<Rightarrow> string \<Rightarrow> string \<Rightarrow> (ref \<Rightarrow> hook) option \<Rightarrow> nat option \<Rightarrow> state
     \<Rightarrow> ref option \<times> state" where
  "load_priv type url i cls f opt_document s =
     (if type \<noteq> ''js'' \<and> type \<noteq> ''css'' then (None, s)
      else
        let tag = (if type = ''js'' then ''script'' else ''link'');
            r = length (heap s);
            e = \<lparr>tagName = tag, ident = i, className = cls,
                 rel = (if type = ''css'' then ''stylesheet'' else []),
                 src = (if type = ''js'' then url else []),
                 href = (if type = ''js'' then [] else url),
                 data = [], loaded = None, fn = map_option (\<lambda>g. g r) f,
                 content = None\<rparr>;
            s1 = s\<lparr>heap := heap s @ [e]\<rparr>;
            s2 = (case opt_document of
                    None \<Rightarrow> s1\<lparr>doc := insert_el type r (doc s1)\<rparr>
                  | Some k \<Rightarrow> s1\<lparr>frames := (frames s1)[k := insert_el type r (frames s1 ! k)]\<rparr>)
        in (Some r, s2\<lparr>trace := trace s2 @ [Inserted r]\<rparr>))"

text \<open>
  The handlers attached by \<^verbatim>\<open>load_\<close>, as the engine invokes them.
  \<^verbatim>\<open>el.onload\<close> (lines 116-122) and \<^verbatim>\<open>el.onreadystatechange\<close> (lines 127-133), the
  latter with the value of \<^verbatim>\<open>el.readyState\<close> the engine reports.
\<close>

definition onload :: "ref \<Rightarrow> state \<Rightarrow> state" where
  "onload r s = (case fn (heap s ! r) of None \<Rightarrow> s | Some k \<Rightarrow> setTimeout (Completion k) s)"

definition onreadystatechange :: "ref \<Rightarrow> string \<Rightarrow> state \<Rightarrow> state" where
  "onreadystatechange r readyState s =
     (if readyState = ''loaded'' \<or> readyState = ''complete'' then onload r s else s)"

subsection \<open>The Unloader: \<^verbatim>\<open>unload_\<close> (lines 185-190) and \<^verbatim>\<open>unload\<close> (lines 167-176)\<close>

text \<open>
  For each element: clear its topic, then \<^verbatim>\<open>els[i].parentNode.removeChild(els[i])\<close>.
  For an element that is in no document \<^verbatim>\<open>parentNode\<close> is null and the call throws a
  TypeError, which ends the loop.
\<close>

fun unload_priv :: "ref list \<Rightarrow> state \<Rightarrow> exn option \<times> state" where
  "unload_priv [] s = (None, s)"
| "unload_priv (r # rs) s =
     (let s1 = pubsub_clear (ident (heap s ! r)) s
      in if attached r s1 then unload_priv rs (removeChild r s1) else (Some TypeError, s1))"

definition unload :: "(string \<Rightarrow> string) \<Rightarrow> string \<Rightarrow> string \<Rightarrow> state \<Rightarrow> exn option \<times> state" where
  "unload h type url s =
     (if type \<noteq> ''js'' \<and> type \<noteq> ''css'' then (None, s)
      else
        (case getElementById s (doc s) (identity h type url) of
           None \<Rightarrow> (None, s)
         | Some el \<Rightarrow> unload_priv [el] s))"

subsection \<open>The Ignorer: \<^verbatim>\<open>ignore\<close> (lines 200-206)\<close>

definition ignore :: "(string \<Rightarrow> string) \<Rightarrow> string \<Rightarrow> string \<Rightarrow> state \<Rightarrow> state" where
  "ignore h type url s =
     (if type \<noteq> ''js'' \<and> type \<noteq> ''css'' then s
      else pubsub_clear (identity h type url) s)"

subsection \<open>The Load Orchestrator: \<^verbatim>\<open>load\<close> (lines 46-87)\<close>

text \<open>The completion closure of lines 75-85.\<close>

fun run_hook :: "hook \<Rightarrow> state \<Rightarrow> exn option \<times> state" where
  "run_hook (Hook el elsToRemove i) s =
     (if \<not> truthy (dataset_get el s) then
        (case unload_priv elsToRemove (dataset_set el ''true'' s) of
           (Some e, s2) \<Rightarrow> (Some e, s2)
         | (None, s2) \<Rightarrow> (None, pubsub_clear i (pubsub_publish i s2)))
      else (None, s))"

definition load ::
  "(string \<Rightarrow> string) \<Rightarrow> string \<Rightarrow> string \<Rightarrow> callback option \<Rightarrow> string option \<Rightarrow> state
     \<Rightarrow> ref option \<times> state" where
  "load h type url opt_callback opt_name s =
     (if type \<noteq> ''js'' \<and> type \<noteq> ''css'' then (None, s)
      else
        let i = identity h type url;
            cls = (case opt_name of None \<Rightarrow> [] | Some n \<Rightarrow> n);
            el = getElementById s (doc s) i;
            isLoaded = (case el of None \<Rightarrow> False | Some r \<Rightarrow> truthy (dataset_get r s))
        in
          if isLoaded then
            (el, case opt_callback of None \<Rightarrow> s | Some cb \<Rightarrow> s\<lparr>trace := trace s @ [Called cb]\<rparr>)
          else
            let s1 = (case opt_callback of None \<Rightarrow> s | Some cb \<Rightarrow> pubsub_subscribe i cb s)
            in
              if el \<noteq> None then (el, s1)
              else
                let tag = (if type = ''js'' then ''script'' else ''link'');
                    elsToRemove = (if cls \<noteq> [] then query s1 tag cls else [])
                in load_priv type url i cls (Some (\<lambda>el. Hook el elsToRemove i)) None s1)"

subsection \<open>The Prefetcher: \<^verbatim>\<open>prefetch\<close> (lines 217-261)\<close>

text \<open>
  The function handed to \<^verbatim>\<open>setTimeout\<close> (lines 239-260). \<^verbatim>\<open>spf.dom.IS_IE\<close> is a
  constant of another module: the parameter \<open>is_ie\<close>. An element without a content
  document has no \<^verbatim>\<open>contentWindow\<close>: reading its \<^verbatim>\<open>document\<close> throws. On IE the
  auxiliary script element is created and never inserted.
\<close>

definition deferred_prefetch ::
  "bool \<Rightarrow> string \<Rightarrow> string \<Rightarrow> string \<Rightarrow> ref \<Rightarrow> state \<Rightarrow> exn option \<times> state" where
  "deferred_prefetch is_ie type url i iframeEl s =
     (case content (heap s ! iframeEl) of
        None \<Rightarrow> (Some TypeError, s)
      | Some k \<Rightarrow>
          if type = ''js'' then
            let r = length (heap s);
                objectEl = \<lparr>tagName = ''object'', ident = i, className = [], rel = [],
                   src = [], href = [], data = (if is_ie then [] else url),
                   loaded = None, fn = None, content = None\<rparr>;
                scriptEl = \<lparr>tagName = ''script'', ident = [], className = [], rel = [],
                   src = url, href = [], data = [], loaded = None, fn = None,
                   content = None\<rparr>;
                d = frames s ! k
            in (None,
                s\<lparr>heap := heap s @ (if is_ie then [objectEl, scriptEl] else [objectEl]),
                  frames := (frames s)[k := d\<lparr>body := body d @ [r]\<rparr>],
                  trace := trace s @ [Inserted r]\<rparr>)
          else (None, snd (load_priv type url i [] None (Some k) s)))"

definition prefetch ::
  "(string \<Rightarrow> string) \<Rightarrow> string \<Rightarrow> string \<Rightarrow> state \<Rightarrow> exn option \<times> state" where
  "prefetch h type url s =
     (if type \<noteq> ''js'' \<and> type \<noteq> ''css'' then (None, s)
      else
        let i = identity h type url in
        (case getElementById s (doc s) i of
           Some el \<Rightarrow> (None, s)
         | None \<Rightarrow>
             let iframeId = type @ ''-prefetch'' in
             (case getElementById s (doc s) iframeId of
                None \<Rightarrow>
                  (case createIframe iframeId s of
                     (iframeEl, s1) \<Rightarrow>
                       (None, setTimeout (Deferred_prefetch type url i iframeEl) s1))
              | Some iframeEl \<Rightarrow>
                  (case content (heap s ! iframeEl) of
                     None \<Rightarrow> (Some TypeError, s)
                   | Some k \<Rightarrow>
                       (case getElementById s (frames s ! k) i of
                          Some el \<Rightarrow> (None, s)
                        | None \<Rightarrow>
                            (None, setTimeout (Deferred_prefetch type url i iframeEl) s))))))"

subsection \<open>The timer queue\<close>

fun run_task :: "bool \<Rightarrow> task \<Rightarrow> state \<Rightarrow> exn option \<times> state" where
  "run_task is_ie (Completion k) s = run_hook k s"
| "run_task is_ie (Deferred_prefetch type url i iframeEl) s =
     deferred_prefetch is_ie type url i iframeEl s"

text \<open>One scheduling tick: the oldest queued task runs.\<close>

definition tick :: "bool \<Rightarrow> state \<Rightarrow> exn option \<times> state" where
  "tick is_ie s =
     (case timers s of
        [] \<Rightarrow> (None, s)
      | t # ts \<Rightarrow> run_task is_ie t (s\<lparr>timers := ts\<rparr>))"

subsection \<open>Runs of the page\<close>

text \<open>
  What can happen to a page: a call of one of the four public functions, the engine
  invoking a handler of an existing element, or a scheduling tick. An exception thrown
  inside a call or a task ends that call or task; the page goes on from the state reached.
\<close>

datatype action =
    Load string string "callback option" "string option"
  | Unload string string
  | Ignore string string
  | Prefetch string string
  | Onload ref
  | Onreadystatechange ref string
  | Tick

fun step :: "(string \<Rightarrow> string) \<Rightarrow> bool \<Rightarrow> action \<Rightarrow> state \<Rightarrow> state" where
  "step h is_ie (Load type url cb name) s = snd (load h type url cb name s)"
| "step h is_ie (Unload type url) s = snd (unload h type url s)"
| "step h is_ie (Ignore type url) s = ignore h type url s"
| "step h is_ie (Prefetch type url) s = snd (prefetch h type url s)"
| "step h is_ie (Onload r) s = (if r < length (heap s) then onload r s else s)"
| "step h is_ie (Onreadystatechange r readyState) s =
     (if r < length (heap s) then onreadystatechange r readyState s else s)"
| "step h is_ie Tick s = snd (tick is_ie s)"

fun run :: "(string \<Rightarrow> string) \<Rightarrow> bool \<Rightarrow> action list \<Rightarrow> state \<Rightarrow> state" where
  "run h is_ie [] s = s"
| "run h is_ie (a # as) s = run h is_ie as (step h is_ie a s)"

text \<open>
  Every reference in the main document is an allocated element, and no element stands
  in the document twice.
\<close>

definition refs_ok :: "state \<Rightarrow> bool" where
  "refs_ok s = ((\<forall>r \<in> set (nodes (doc s)). r < length (heap s)) \<and> distinct (nodes (doc s)))"

text \<open>How many elements of the main document carry the id \<open>i\<close>.\<close>

definition count_id :: "state \<Rightarrow> string \<Rightarrow> nat" where
  "count_id s i = length (filter (\<lambda>r. ident (heap s ! r) = i) (nodes (doc s)))"

subsection \<open>Sample pages\<close>

text \<open>A page with an empty head and an empty body, nothing subscribed, nothing queued.\<close>

definition empty_page :: state where
  "empty_page = \<lparr>heap = [], doc = \<lparr>head = Some [], body = []\<rparr>, frames = [],
     topics = (\<lambda>_. []), timers = [], trace = []\<rparr>"

text \<open>A stand-in for the hash: the URL itself.\<close>

definition sample_hash :: "string \<Rightarrow> string" where
  "sample_hash u = u"

text \<open>\<^verbatim>\<open>load('js', 'a.js', 1)\<close> on the empty page: element 0 is loading.\<close>

definition page_loading :: state where
  "page_loading = run sample_hash False [Load ''js'' ''a.js'' (Some 1) None] empty_page"

text \<open>The same page once the script has loaded and the deferred completion has run.\<close>

definition page_loaded :: state where
  "page_loaded = run sample_hash False [Onload 0, Tick] page_loading"

text \<open>
  Three stylesheets loaded under the one name \<^verbatim>\<open>'main'\<close>, one after the other and
  before any of them has completed: \<^verbatim>\<open>a.css\<close> (element 0), \<^verbatim>\<open>b.css\<close> (element 1,
  snapshot \<open>[0]\<close>), \<^verbatim>\<open>c.css\<close> with callback 7 (element 2, snapshot \<open>[0, 1]\<close>).
\<close>

definition page_a :: state where
  "page_a = run sample_hash False [Load ''css'' ''a.css'' None (Some ''main'')] empty_page"

definition page_ab :: state where
  "page_ab = run sample_hash False [Load ''css'' ''b.css'' None (Some ''main'')] page_a"

definition page_abc :: state where
  "page_abc = run sample_hash False [Load ''css'' ''c.css'' (Some 7) (Some ''main'')] page_ab"

text \<open>Then \<^verbatim>\<open>b.css\<close> completes.\<close>

definition page_b_done :: state where
  "page_b_done = run sample_hash False [Onload 1, Tick] page_abc"

text \<open>
  \<^verbatim>\<open>prefetch('js', 'a.js')\<close> on the empty page, then the tick that runs its deferred
  body, then \<^verbatim>\<open>prefetch('css', 'b.css')\<close>.
\<close>

definition page_prefetching :: state where
  "page_prefetching = run sample_hash False [Prefetch ''js'' ''a.js''] empty_page"

definition page_prefetched :: state where
  "page_prefetched = run sample_hash False [Tick] page_prefetching"

definition page_two_contexts :: state where
  "page_two_contexts = run sample_hash False [Prefetch ''css'' ''b.css''] page_prefetched"

text \<open>
  A page whose markup already has a stylesheet with two class tokens,
  \<^verbatim>\<open><link id="old" class="main print" rel="stylesheet" href="old.css">\<close>, and the
  same page after \<^verbatim>\<open>load('css', 'b.css', null, 'main')\<close>.
\<close>

definition page_static :: state where
  "page_static = \<lparr>heap =
       [\<lparr>tagName = ''link'', ident = ''old'', className = ''main print'',
         rel = ''stylesheet'', src = [], href = ''old.css'', data = [], loaded = None,
         fn = None, content = None\<rparr>],
     doc = \<lparr>head = Some [0], body = []\<rparr>, frames = [],
     topics = (\<lambda>_. []), timers = [], trace = []\<rparr>"

definition page_static_b :: state where
  "page_static_b = run sample_hash False [Load ''css'' ''b.css'' None (Some ''main'')] page_static"

section \<open>Properties\<close>

subsection \<open>Basic facts\<close>

lemma getElementById_Some:
  "getElementById s d i = Some r \<Longrightarrow> r \<in> set (nodes d) \<and> ident (heap s ! r) = i"
  unfolding getElementById_def by (auto simp: find_Some_iff)

lemma getElementById_None:
  "getElementById s d i = None \<longleftrightarrow> (\<forall>r \<in> set (nodes d). ident (heap s ! r) \<noteq> i)"
  unfolding getElementById_def by (auto simp: find_None_iff)

lemma nodes_insert_el_set: "set (nodes (insert_el t r d)) = insert r (set (nodes d))"
  by (auto simp: nodes_def insert_el_def split: option.splits)

lemma nodes_insert_el_distinct:
  "distinct (nodes (insert_el t r d)) \<longleftrightarrow> r \<notin> set (nodes d) \<and> distinct (nodes d)"
  by (auto simp: nodes_def insert_el_def split: option.splits)

lemma nodes_insert_el_count:
  "length (filter P (nodes (insert_el t r d))) = (if P r then 1 else 0) + length (filter P (nodes d))"
  by (auto simp: nodes_def insert_el_def split: option.splits)

lemma removeAll_as_filter: "removeAll r xs = filter (\<lambda>x. x \<noteq> r) xs"
  by (induction xs) auto

lemma nodes_remove_from: "nodes (remove_from r d) = filter (\<lambda>x. x \<noteq> r) (nodes d)"
  by (simp add: nodes_def remove_from_def removeAll_as_filter split: option.splits)

lemma nodes_fold_remove_from:
  "nodes (fold remove_from els d) = filter (\<lambda>x. x \<notin> set els) (nodes d)"
  by (induction els arbitrary: d) (auto simp: nodes_remove_from intro: filter_cong)

lemma name_char_not_space: "name_char c \<Longrightarrow> \<not> is_space c"
  by (auto simp: name_char_def name_start_def is_space_def)

text \<open>The class attribute the Loader sets from a plain name has that name as its one token.\<close>

lemma class_tokens_plain:
  assumes "plain_token n"
  shows "class_tokens n = [n]"
proof (cases n)
  case Nil
  with assms show ?thesis by (simp add: plain_token_def)
next
  case (Cons c cs)
  with assms have c: "name_char c" and cs: "\<forall>x \<in> set cs. name_char x"
    by (auto simp: plain_token_def name_char_def list_all_iff)
  from cs have tk: "takeWhile (\<lambda>x. \<not> is_space x) cs = cs"
    and dr: "dropWhile (\<lambda>x. \<not> is_space x) cs = []"
    by (auto simp: name_char_not_space)
  show ?thesis
    unfolding Cons using c by (simp add: name_char_not_space tk dr)
qed

lemmas sample_defs =
  empty_page_def sample_hash_def page_loading_def page_loaded_def
  load_def load_priv_def unload_def ignore_def prefetch_def identity_def
  getElementById_def nodes_def insert_el_def query_def truthy_def
  dataset_get_def dataset_set_def pubsub_subscribe_def pubsub_publish_def pubsub_clear_def
  attached_def remove_from_def removeChild_def setTimeout_def createIframe_def
  onload_def onreadystatechange_def tick_def deferred_prefetch_def Let_def is_space_def

lemma page_loading_eq: "page_loading = \<lparr>heap =
       [\<lparr>tagName = ''script'', ident = ''js-a.js'', className = [], rel = [],
           src = ''a.js'', href = [], data = [], loaded = None,
           fn = Some (Hook 0 [] ''js-a.js''), content = None\<rparr>],
       doc = \<lparr>head = Some [0], body = []\<rparr>, frames = [],
       topics = (\<lambda>_. [])(''js-a.js'' := [1]), timers = [],
       trace = [Subscribed ''js-a.js'' 1, Inserted 0]\<rparr>"
  by (simp add: sample_defs)

lemma page_loaded_eq: "page_loaded = \<lparr>heap =
       [\<lparr>tagName = ''script'', ident = ''js-a.js'', className = [], rel = [],
           src = ''a.js'', href = [], data = [], loaded = Some ''true'',
           fn = Some (Hook 0 [] ''js-a.js''), content = None\<rparr>],
       doc = \<lparr>head = Some [0], body = []\<rparr>, frames = [],
       topics = (\<lambda>_. [])(''js-a.js'' := []), timers = [],
       trace = [Subscribed ''js-a.js'' 1, Inserted 0,
         Scheduled (Completion (Hook 0 [] ''js-a.js'')), Marked 0,
         Published ''js-a.js'', Called 1, Cleared ''js-a.js'']\<rparr>"
  unfolding page_loaded_def page_loading_eq
  by (simp add: sample_defs)

subsection \<open>Unsupported types\<close>

text \<open>
  C5. For a type other than \<^verbatim>\<open>'js'\<close> and \<^verbatim>\<open>'css'\<close>, \<^verbatim>\<open>load\<close> returns null and
  leaves the whole state as it was (no element, no subscription, no callback run, no
  change to the document); \<^verbatim>\<open>unload\<close>, \<^verbatim>\<open>ignore\<close> and \<^verbatim>\<open>prefetch\<close> return without
  doing anything. None of them throws.
\<close>

theorem C5_invalid_type_is_noop:
  assumes "type \<noteq> ''js''" and "type \<noteq> ''css''"
  shows "load h type url opt_callback opt_name s = (None, s)
       \<and> unload h type url s = (None, s)
       \<and> ignore h type url s = s
       \<and> prefetch h type url s = (None, s)"
  using assms by (simp add: load_def unload_def ignore_def prefetch_def)

theorem C5_invalid_type_witness:
  "load sample_hash ''png'' ''a.png'' (Some 1) (Some ''main'') page_loading = (None, page_loading)
   \<and> unload sample_hash ''png'' ''a.png'' page_loading = (None, page_loading)
   \<and> ignore sample_hash ''png'' ''a.png'' page_loading = page_loading
   \<and> prefetch sample_hash ''png'' ''a.png'' page_loading = (None, page_loading)"
  using C5_invalid_type_is_noop
    [of "''png''" sample_hash "''a.png''" "Some 1" "Some ''main''" page_loading]
  by simp

subsection \<open>A resource that is already loaded\<close>

text \<open>
  C4. When the element of (type, url) is in the document and its loaded marker is set,
  \<^verbatim>\<open>load\<close> returns that element; with a callback it calls the callback once, at once,
  and changes nothing else (the only new trace entry is that call: no DOM mutation, no
  subscription); without a callback it changes nothing.
\<close>

theorem C4_loaded_calls_back_at_once:
  assumes "type = ''js'' \<or> type = ''css''"
    and "getElementById s (doc s) (identity h type url) = Some r"
    and "truthy (dataset_get r s)"
  shows "load h type url (Some cb) opt_name s = (Some r, s\<lparr>trace := trace s @ [Called cb]\<rparr>)
       \<and> load h type url None opt_name s = (Some r, s)"
  using assms by (auto simp: load_def)

theorem C4_loaded_witness:
  "getElementById page_loaded (doc page_loaded) (identity sample_hash ''js'' ''a.js'') = Some 0
   \<and> truthy (dataset_get 0 page_loaded)
   \<and> load sample_hash ''js'' ''a.js'' (Some 5) (Some ''main'') page_loaded
       = (Some 0, page_loaded\<lparr>trace := trace page_loaded @ [Called 5]\<rparr>)
   \<and> load sample_hash ''js'' ''a.js'' None (Some ''main'') page_loaded = (Some 0, page_loaded)"
proof -
  have g: "getElementById page_loaded (doc page_loaded) (identity sample_hash ''js'' ''a.js'') = Some 0"
    unfolding page_loaded_eq by (simp add: getElementById_def nodes_def identity_def sample_hash_def)
  have m: "truthy (dataset_get 0 page_loaded)"
    unfolding page_loaded_eq by (simp add: truthy_def dataset_get_def)
  show ?thesis
    using g m C4_loaded_calls_back_at_once [OF _ g m, of 5 "Some ''main''"] by simp
qed

subsection \<open>Unloading\<close>

lemma unload_priv_heap: "heap (snd (unload_priv els s)) = heap s"
  by (induction els arbitrary: s) (auto simp: Let_def pubsub_clear_def removeChild_def)

lemma unload_priv_timers: "timers (snd (unload_priv els s)) = timers s"
  by (induction els arbitrary: s) (auto simp: Let_def pubsub_clear_def removeChild_def)

text \<open>Whether it throws or not, \<^verbatim>\<open>unload_\<close> removes nothing but elements of its argument.\<close>

lemma unload_priv_nodes_sub:
  "\<exists>ys. nodes (doc (snd (unload_priv els s))) = filter (\<lambda>x. x \<notin> set ys) (nodes (doc s))
     \<and> set ys \<subseteq> set els"
proof (induction els arbitrary: s)
  case Nil
  show ?case by (rule exI [of _ "[]"]) simp
next
  case (Cons r rs)
  show ?case
  proof (cases "attached r (pubsub_clear (ident (heap s ! r)) s)")
    case False
    then show ?thesis
      by (intro exI [of _ "[]"]) (simp add: pubsub_clear_def)
  next
    case True
    let ?s1 = "removeChild r (pubsub_clear (ident (heap s ! r)) s)"
    from Cons.IH [of ?s1] obtain ys where
      ys: "nodes (doc (snd (unload_priv rs ?s1))) = filter (\<lambda>x. x \<notin> set ys) (nodes (doc ?s1))"
        "set ys \<subseteq> set rs" by blast
    have "nodes (doc ?s1) = filter (\<lambda>x. x \<noteq> r) (nodes (doc s))"
      by (simp add: removeChild_def pubsub_clear_def nodes_remove_from)
    with ys True show ?thesis
      by (intro exI [of _ "r # ys"]) (auto simp: Let_def intro: filter_cong)
  qed
qed


text \<open>
  When the elements are distinct and all in the main document, \<^verbatim>\<open>unload_\<close> does not
  throw: for each element in turn it clears the topic named by the element's id and
  then removes the element.
\<close>

lemma unload_priv_ok:
  assumes "distinct els" and "\<forall>x \<in> set els. x \<in> set (nodes (doc s))"
  shows "unload_priv els s =
     (None, s\<lparr>doc := fold remove_from els (doc s),
              frames := fold (\<lambda>r. map (remove_from r)) els (frames s),
              topics := (\<lambda>t. if t \<in> (\<lambda>x. ident (heap s ! x)) ` set els then [] else topics s t),
              trace := trace s @ concat (map (\<lambda>x. [Cleared (ident (heap s ! x)), Removed x]) els)\<rparr>)"
  using assms
proof (induction els arbitrary: s)
  case Nil
  show ?case by simp
next
  case (Cons r rs)
  let ?s1 = "removeChild r (pubsub_clear (ident (heap s ! r)) s)"
  have att: "attached r (pubsub_clear (ident (heap s ! r)) s)"
    using Cons.prems by (simp add: attached_def pubsub_clear_def)
  have a: "\<forall>x \<in> set rs. x \<in> set (nodes (doc ?s1))"
    using Cons.prems by (auto simp: removeChild_def pubsub_clear_def nodes_remove_from)
  have d: "distinct rs" using Cons.prems by simp
  have "unload_priv rs ?s1 = (None, ?s1\<lparr>doc := fold remove_from rs (doc ?s1),
              frames := fold (\<lambda>r. map (remove_from r)) rs (frames ?s1),
              topics := (\<lambda>t. if t \<in> (\<lambda>x. ident (heap ?s1 ! x)) ` set rs then [] else topics ?s1 t),
              trace := trace ?s1 @ concat (map (\<lambda>x. [Cleared (ident (heap ?s1 ! x)), Removed x]) rs)\<rparr>)"
    by (rule Cons.IH [OF d a])
  with att show ?case
    by (auto simp: Let_def removeChild_def pubsub_clear_def fun_eq_iff)
qed

text \<open>
  C8. \<^verbatim>\<open>unload(type, url)\<close> with a valid type. If no element of the main document has
  the Identity as its id, the state is returned unchanged (no topic cleared, no DOM
  mutation). If one has, the topic of the Identity is cleared first and the element is
  then removed from its parent, in that order, and nothing else changes; no exception is
  thrown.
\<close>

theorem C8_unload_clears_then_detaches:
  assumes "type = ''js'' \<or> type = ''css''"
  shows "(case getElementById s (doc s) (identity h type url) of
            None \<Rightarrow> unload h type url s = (None, s)
          | Some r \<Rightarrow> unload h type url s =
              (None, s\<lparr>doc := remove_from r (doc s),
                       frames := map (remove_from r) (frames s),
                       topics := (topics s)(identity h type url := []),
                       trace := trace s @ [Cleared (identity h type url), Removed r]\<rparr>))"
  using assms
  by (auto simp: unload_def pubsub_clear_def attached_def removeChild_def
      split: option.splits dest!: getElementById_Some)

theorem C8_unload_witness:
  "unload sample_hash ''js'' ''a.js'' page_loading =
     (None, page_loading\<lparr>doc := \<lparr>head = Some [], body = []\<rparr>,
        frames := [], topics := (\<lambda>_. []),
        trace := [Subscribed ''js-a.js'' 1, Inserted 0, Cleared ''js-a.js'', Removed 0]\<rparr>)
   \<and> unload sample_hash ''css'' ''a.css'' page_loading = (None, page_loading)"
proof -
  have g: "getElementById page_loading (doc page_loading) (identity sample_hash ''js'' ''a.js'') = Some 0"
    unfolding page_loading_eq by (simp add: getElementById_def nodes_def identity_def sample_hash_def)
  have n: "getElementById page_loading (doc page_loading) (identity sample_hash ''css'' ''a.css'') = None"
    unfolding page_loading_eq by (simp add: getElementById_def nodes_def identity_def sample_hash_def)
  have "unload sample_hash ''js'' ''a.js'' page_loading =
     (None, page_loading\<lparr>doc := remove_from 0 (doc page_loading),
        frames := map (remove_from 0) (frames page_loading),
        topics := (topics page_loading)(identity sample_hash ''js'' ''a.js'' := []),
        trace := trace page_loading @ [Cleared (identity sample_hash ''js'' ''a.js''), Removed 0]\<rparr>)"
    using C8_unload_clears_then_detaches
      [where type = "''js''" and s = page_loading and h = sample_hash and url = "''a.js''"]
    by (simp add: g)
  moreover have "unload sample_hash ''css'' ''a.css'' page_loading = (None, page_loading)"
    using C8_unload_clears_then_detaches
      [where type = "''css''" and s = page_loading and h = sample_hash and url = "''a.css''"]
    by (simp add: n)
  ultimately show ?thesis
    by (simp add: page_loading_eq remove_from_def identity_def sample_hash_def fun_eq_iff)
qed

subsection \<open>Completion is deferred\<close>

lemma timers_empty_upd: "timers s = [] \<Longrightarrow> s\<lparr>timers := []\<rparr> = s"
  by (cases s) simp

text \<open>
  C6. Let the Loader create an element with a completion function. Whenever the engine
  invokes the element's \<^verbatim>\<open>onload\<close> handler, be it at once after the insertion (a
  synchronous signal, as for a cache hit) or in any later state in which the element
  still carries the function, the handler only queues the completion function for the
  next scheduling tick: the marker, the documents and the topics are unchanged and no
  callback has run. The \<^verbatim>\<open>onreadystatechange\<close> handler, on \<^verbatim>\<open>'loaded'\<close> and on
  \<^verbatim>\<open>'complete'\<close>, does what \<^verbatim>\<open>onload\<close> does, and nothing on any other value. The
  queued function runs at the tick that reaches it.
\<close>

theorem C6_completion_is_deferred:
  assumes "type = ''js'' \<or> type = ''css''"
    and "load_priv type url i cls (Some g) opt_document s = (ret, s1)"
    and "r = length (heap s)"
    and "k = g r"
  shows "ret = Some r \<and> fn (heap s1 ! r) = Some k
    \<and> (fn (heap s2 ! r) = Some k \<longrightarrow>
         onload r s2 = s2\<lparr>timers := timers s2 @ [Completion k],
                          trace := trace s2 @ [Scheduled (Completion k)]\<rparr>
       \<and> onreadystatechange r ''loaded'' s2 = onload r s2
       \<and> onreadystatechange r ''complete'' s2 = onload r s2
       \<and> (readyState \<noteq> ''loaded'' \<and> readyState \<noteq> ''complete'' \<longrightarrow>
            onreadystatechange r readyState s2 = s2)
       \<and> (timers s2 = [] \<longrightarrow>
            tick is_ie (onload r s2) = run_hook k (s2\<lparr>trace := trace s2 @ [Scheduled (Completion k)]\<rparr>)))"
proof -
  have "ret = Some r \<and> fn (heap s1 ! r) = Some k"
    using assms by (auto simp: load_priv_def Let_def split: option.splits)
  moreover have "onload r s2 = s2\<lparr>timers := timers s2 @ [Completion k],
      trace := trace s2 @ [Scheduled (Completion k)]\<rparr>"
    if "fn (heap s2 ! r) = Some k"
    using that by (simp add: onload_def setTimeout_def)
  moreover have "tick is_ie (onload r s2) =
      run_hook k (s2\<lparr>trace := trace s2 @ [Scheduled (Completion k)]\<rparr>)"
    if "fn (heap s2 ! r) = Some k" and "timers s2 = []"
  proof -
    have e: "(s2\<lparr>trace := trace s2 @ [Scheduled (Completion k)]\<rparr>)\<lparr>timers := []\<rparr>
        = s2\<lparr>trace := trace s2 @ [Scheduled (Completion k)]\<rparr>"
      by (rule timers_empty_upd) (simp add: that)
    have "tick is_ie (onload r s2) =
        run_hook k ((s2\<lparr>trace := trace s2 @ [Scheduled (Completion k)]\<rparr>)\<lparr>timers := []\<rparr>)"
      using that by (simp add: onload_def setTimeout_def tick_def del: run_hook.simps)
    then show ?thesis
      unfolding e .
  qed
  ultimately show ?thesis
    by (simp add: onreadystatechange_def del: run_hook.simps)
qed

theorem C6_completion_witness:
  "load_priv ''js'' ''a.js'' ''js-a.js'' [] (Some (\<lambda>el. Hook el [] ''js-a.js'')) None empty_page
     = (Some 0, page_loading\<lparr>topics := (\<lambda>_. []), trace := [Inserted 0]\<rparr>)
   \<and> onload 0 page_loading =
       page_loading\<lparr>timers := [Completion (Hook 0 [] ''js-a.js'')],
         trace := [Subscribed ''js-a.js'' 1, Inserted 0, Scheduled (Completion (Hook 0 [] ''js-a.js''))]\<rparr>
   \<and> onreadystatechange 0 ''complete'' page_loading = onload 0 page_loading
   \<and> onreadystatechange 0 ''interactive'' page_loading = page_loading
   \<and> snd (tick False (onload 0 page_loading)) = page_loaded"
proof -
  have l: "load_priv ''js'' ''a.js'' ''js-a.js'' [] (Some (\<lambda>el. Hook el [] ''js-a.js'')) None empty_page
     = (Some 0, page_loading\<lparr>topics := (\<lambda>_. []), trace := [Inserted 0]\<rparr>)"
    unfolding page_loading_eq by (simp add: load_priv_def empty_page_def insert_el_def)
  have f: "fn (heap page_loading ! 0) = Some (Hook 0 [] ''js-a.js'')"
    unfolding page_loading_eq by simp
  have t: "timers page_loading = []"
    unfolding page_loading_eq by simp
  have h: "run_hook (Hook 0 [] ''js-a.js'')
      (page_loading\<lparr>trace := trace page_loading @ [Scheduled (Completion (Hook 0 [] ''js-a.js''))]\<rparr>)
      = (None, page_loaded)"
    unfolding page_loading_eq page_loaded_eq
    by (simp add: truthy_def dataset_get_def dataset_set_def pubsub_publish_def pubsub_clear_def)
  have tr: "trace page_loading = [Subscribed ''js-a.js'' 1, Inserted 0]"
    unfolding page_loading_eq by simp
  have ne: "''interactive'' \<noteq> ''loaded'' \<and> ''interactive'' \<noteq> ''complete''"
    by simp
  have p1: "''js'' = ''js'' \<or> ''js'' = ''css''"
    by simp
  have p3: "0 = length (heap empty_page)"
    by (simp add: empty_page_def)
  have p4: "Hook 0 [] ''js-a.js'' = Hook 0 [] ''js-a.js''"
    by simp
  note c = C6_completion_is_deferred
    [where type = "''js''" and s = empty_page and r = 0 and k = "Hook 0 [] ''js-a.js''"
       and ?s2.0 = page_loading and readyState = "''interactive''" and is_ie = False,
     OF p1 l p3 p4]
  from c f have A: "onload 0 page_loading =
      page_loading\<lparr>timers := timers page_loading @ [Completion (Hook 0 [] ''js-a.js'')],
        trace := trace page_loading @ [Scheduled (Completion (Hook 0 [] ''js-a.js''))]\<rparr>"
    by blast
  from c f have B: "onreadystatechange 0 ''complete'' page_loading = onload 0 page_loading"
    by blast
  from c f ne have C: "onreadystatechange 0 ''interactive'' page_loading = page_loading"
    by blast
  from c f t have D: "tick False (onload 0 page_loading) = run_hook (Hook 0 [] ''js-a.js'')
      (page_loading\<lparr>trace := trace page_loading @ [Scheduled (Completion (Hook 0 [] ''js-a.js''))]\<rparr>)"
    by blast
  have E: "snd (tick False (onload 0 page_loading)) = page_loaded"
    unfolding D h by simp
  from A have A': "onload 0 page_loading =
       page_loading\<lparr>timers := [Completion (Hook 0 [] ''js-a.js'')],
         trace := [Subscribed ''js-a.js'' 1, Inserted 0, Scheduled (Completion (Hook 0 [] ''js-a.js''))]\<rparr>"
    by (simp add: t tr)
  from l A' B C E show ?thesis
    by blast
qed

subsection \<open>The completion closure\<close>

lemma nth_upd_inv:
  assumes "\<And>e. f (g e) = f e"
  shows "f ((xs[el := g (xs ! el)]) ! x) = f (xs ! x)"
proof (cases "el < length xs")
  case True
  then show ?thesis using assms by (cases "x = el") simp_all
next
  case False
  then have "length xs \<le> el" by simp
  then have "xs[el := g (xs ! el)] = xs" by (rule list_update_beyond)
  then show ?thesis by (rule arg_cong [where f = "\<lambda>ys. f (ys ! x)"])
qed

lemma nth_marked:
  "ident ((xs[el := (xs ! el)\<lparr>loaded := v\<rparr>]) ! x) = ident (xs ! x)"
  "tagName ((xs[el := (xs ! el)\<lparr>loaded := v\<rparr>]) ! x) = tagName (xs ! x)"
  "className ((xs[el := (xs ! el)\<lparr>loaded := v\<rparr>]) ! x) = className (xs ! x)"
  "fn ((xs[el := (xs ! el)\<lparr>loaded := v\<rparr>]) ! x) = fn (xs ! x)"
  "content ((xs[el := (xs ! el)\<lparr>loaded := v\<rparr>]) ! x) = content (xs ! x)"
  by (rule nth_upd_inv [where g = "\<lambda>e. e\<lparr>loaded := v\<rparr>"], simp)+


text \<open>A later invocation: the marker is set, nothing happens.\<close>

lemma run_hook_again:
  "truthy (dataset_get el s) \<Longrightarrow> run_hook (Hook el snap i) s = (None, s)"
  by simp

text \<open>The first thing a first invocation does is to set the marker; it stays set.\<close>

lemma run_hook_heap:
  "\<not> truthy (dataset_get el s) \<Longrightarrow>
     heap (snd (run_hook (Hook el snap i) s)) = (heap s)[el := (heap s ! el)\<lparr>loaded := Some ''true''\<rparr>]"
  using unload_priv_heap [of snap "dataset_set el ''true'' s"]
  by (auto simp: dataset_set_def pubsub_clear_def pubsub_publish_def split: prod.splits option.splits)


text \<open>Thrown or not, an invocation removes nothing but elements of the snapshot.\<close>

lemma run_hook_nodes_sub:
  "\<exists>ys. nodes (doc (snd (run_hook (Hook el snap i) s))) = filter (\<lambda>x. x \<notin> set ys) (nodes (doc s))
     \<and> set ys \<subseteq> set snap"
proof (cases "truthy (dataset_get el s)")
  case True
  then show ?thesis by (intro exI [of _ "[]"]) simp
next
  case False
  from unload_priv_nodes_sub [of snap "dataset_set el ''true'' s"] obtain ys where
    "nodes (doc (snd (unload_priv snap (dataset_set el ''true'' s))))
       = filter (\<lambda>x. x \<notin> set ys) (nodes (doc (dataset_set el ''true'' s)))"
    "set ys \<subseteq> set snap" by blast
  with False show ?thesis
    by (intro exI [of _ ys])
       (auto simp: dataset_set_def pubsub_clear_def pubsub_publish_def split: prod.splits option.splits)
qed


text \<open>
  A first invocation whose snapshot elements are distinct and all still in the main
  document does not throw. In order: it sets the marker; for each snapshot element it
  clears that element's topic and removes the element; it publishes its own topic,
  calling the subscribers in registration order; it clears its own topic.
\<close>

lemma run_hook_first:
  assumes "\<not> truthy (dataset_get el s)"
    and "distinct snap" and "\<forall>x \<in> set snap. x \<in> set (nodes (doc s))"
  shows "run_hook (Hook el snap i) s =
     (None, s\<lparr>heap := (heap s)[el := (heap s ! el)\<lparr>loaded := Some ''true''\<rparr>],
              doc := fold remove_from snap (doc s),
              frames := fold (\<lambda>r. map (remove_from r)) snap (frames s),
              topics := (\<lambda>t. if t = i \<or> t \<in> (\<lambda>x. ident (heap s ! x)) ` set snap then []
                              else topics s t),
              trace := trace s @ Marked el
                 # concat (map (\<lambda>x. [Cleared (ident (heap s ! x)), Removed x]) snap)
                 @ Published i
                 # map Called (if i \<in> (\<lambda>x. ident (heap s ! x)) ` set snap then [] else topics s i)
                 @ [Cleared i]\<rparr>)"
proof -
  let ?s1 = "dataset_set el ''true'' s"
  let ?ids = "(\<lambda>x. ident (heap s ! x)) ` set snap"
  have a: "\<forall>x \<in> set snap. x \<in> set (nodes (doc ?s1))"
    using assms(3) by (simp add: dataset_set_def)
  have idents: "\<And>x. ident (heap ?s1 ! x) = ident (heap s ! x)"
    by (simp add: dataset_set_def nth_marked)
  have u: "unload_priv snap ?s1 =
     (None, ?s1\<lparr>doc := fold remove_from snap (doc ?s1),
              frames := fold (\<lambda>r. map (remove_from r)) snap (frames ?s1),
              topics := (\<lambda>t. if t \<in> ?ids then [] else topics ?s1 t),
              trace := trace ?s1 @ concat (map (\<lambda>x. [Cleared (ident (heap s ! x)), Removed x]) snap)\<rparr>)"
    using unload_priv_ok [OF assms(2) a] by (simp only: idents)
  show ?thesis
    using assms(1)
    by (simp add: u) (simp add: dataset_set_def pubsub_clear_def pubsub_publish_def fun_eq_iff)
qed

subsection \<open>Loading a resource that is not in the document\<close>

text \<open>
  What \<^verbatim>\<open>load\<close> does when no element has the Identity: the callback, if any, is
  subscribed; the snapshot is taken; a new element carrying the completion closure is
  created and inserted.
\<close>

lemma load_absent:
  assumes "type = ''js'' \<or> type = ''css''"
    and "getElementById s (doc s) (identity h type url) = None"
    and "load h type url opt_callback opt_name s = (ret, s1)"
    and "r = length (heap s)"
    and "cls = (case opt_name of None \<Rightarrow> [] | Some n \<Rightarrow> n)"
    and "snap = (if cls \<noteq> [] then query s (if type = ''js'' then ''script'' else ''link'') cls else [])"
  shows "ret = Some r"
    and "heap s1 = heap s @
          [\<lparr>tagName = (if type = ''js'' then ''script'' else ''link''),
            ident = identity h type url, className = cls,
            rel = (if type = ''css'' then ''stylesheet'' else []),
            src = (if type = ''js'' then url else []),
            href = (if type = ''js'' then [] else url),
            data = [], loaded = None, fn = Some (Hook r snap (identity h type url)),
            content = None\<rparr>]"
    and "doc s1 = insert_el type r (doc s)"
    and "frames s1 = frames s"
    and "timers s1 = timers s"
    and "topics s1 = (case opt_callback of None \<Rightarrow> topics s
           | Some cb \<Rightarrow> (topics s)(identity h type url := topics s (identity h type url) @ [cb]))"
    and "trace s1 = trace s @ (case opt_callback of None \<Rightarrow> []
           | Some cb \<Rightarrow> [Subscribed (identity h type url) cb]) @ [Inserted r]"
  using assms
  by (auto simp: load_def load_priv_def Let_def query_def pubsub_subscribe_def split: option.splits)

lemma query_distinct: "distinct (nodes (doc s)) \<Longrightarrow> distinct (query s tag cls)"
  by (simp add: query_def)


subsection \<open>The sample pages, evaluated\<close>

lemma page_a_eq: "page_a = \<lparr>heap =
    [\<lparr>tagName = ''link'', ident = ''css-a.css'', className = ''main'',
        rel = ''stylesheet'', src = [], href = ''a.css'', data = [],
        loaded = None, fn = Some (Hook 0 [] ''css-a.css''), content = None\<rparr>],
    doc = \<lparr>head = Some [0], body = []\<rparr>, frames = [], topics = (\<lambda>_. []),
    timers = [], trace = [Inserted 0]\<rparr>"
  by (simp add: page_a_def sample_defs)

lemma page_ab_eq: "page_ab = \<lparr>heap =
    [\<lparr>tagName = ''link'', ident = ''css-a.css'', className = ''main'',
        rel = ''stylesheet'', src = [], href = ''a.css'', data = [],
        loaded = None, fn = Some (Hook 0 [] ''css-a.css''), content = None\<rparr>,
     \<lparr>tagName = ''link'', ident = ''css-b.css'', className = ''main'',
        rel = ''stylesheet'', src = [], href = ''b.css'', data = [],
        loaded = None, fn = Some (Hook 1 [0] ''css-b.css''), content = None\<rparr>],
    doc = \<lparr>head = Some [0, 1], body = []\<rparr>, frames = [], topics = (\<lambda>_. []),
    timers = [], trace = [Inserted 0, Inserted 1]\<rparr>"
  unfolding page_ab_def page_a_eq
  by (simp add: sample_defs)

lemma page_abc_eq: "page_abc = \<lparr>heap =
    [\<lparr>tagName = ''link'', ident = ''css-a.css'', className = ''main'',
        rel = ''stylesheet'', src = [], href = ''a.css'', data = [],
        loaded = None, fn = Some (Hook 0 [] ''css-a.css''), content = None\<rparr>,
     \<lparr>tagName = ''link'', ident = ''css-b.css'', className = ''main'',
        rel = ''stylesheet'', src = [], href = ''b.css'', data = [],
        loaded = None, fn = Some (Hook 1 [0] ''css-b.css''), content = None\<rparr>,
     \<lparr>tagName = ''link'', ident = ''css-c.css'', className = ''main'',
        rel = ''stylesheet'', src = [], href = ''c.css'', data = [],
        loaded = None, fn = Some (Hook 2 [0, 1] ''css-c.css''), content = None\<rparr>],
    doc = \<lparr>head = Some [0, 1, 2], body = []\<rparr>, frames = [],
    topics = (\<lambda>_. [])(''css-c.css'' := [7]),
    timers = [],
    trace = [Inserted 0, Inserted 1, Subscribed ''css-c.css'' 7, Inserted 2]\<rparr>"
  unfolding page_abc_def page_ab_eq
  by (simp add: sample_defs)

lemma page_b_done_eq: "page_b_done = \<lparr>heap =
    [\<lparr>tagName = ''link'', ident = ''css-a.css'', className = ''main'',
        rel = ''stylesheet'', src = [], href = ''a.css'', data = [],
        loaded = None, fn = Some (Hook 0 [] ''css-a.css''), content = None\<rparr>,
     \<lparr>tagName = ''link'', ident = ''css-b.css'', className = ''main'',
        rel = ''stylesheet'', src = [], href = ''b.css'', data = [],
        loaded = Some ''true'', fn = Some (Hook 1 [0] ''css-b.css''), content = None\<rparr>,
     \<lparr>tagName = ''link'', ident = ''css-c.css'', className = ''main'',
        rel = ''stylesheet'', src = [], href = ''c.css'', data = [],
        loaded = None, fn = Some (Hook 2 [0, 1] ''css-c.css''), content = None\<rparr>],
    doc = \<lparr>head = Some [1, 2], body = []\<rparr>, frames = [],
    topics = (\<lambda>_. [])(''css-c.css'' := [7], ''css-a.css'' := [], ''css-b.css'' := []),
    timers = [],
    trace =
      [Inserted 0, Inserted 1, Subscribed ''css-c.css'' 7, Inserted 2,
       Scheduled (Completion (Hook 1 [0] ''css-b.css'')), Marked 1,
       Cleared ''css-a.css'', Removed 0, Published ''css-b.css'',
       Cleared ''css-b.css'']\<rparr>"
  unfolding page_b_done_def page_abc_eq
  by (simp add: sample_defs)

lemma completion_of_c_eq: "tick False (onload 2 page_b_done) = (Some TypeError, \<lparr>heap =
    [\<lparr>tagName = ''link'', ident = ''css-a.css'', className = ''main'',
        rel = ''stylesheet'', src = [], href = ''a.css'', data = [],
        loaded = None, fn = Some (Hook 0 [] ''css-a.css''), content = None\<rparr>,
     \<lparr>tagName = ''link'', ident = ''css-b.css'', className = ''main'',
        rel = ''stylesheet'', src = [], href = ''b.css'', data = [],
        loaded = Some ''true'', fn = Some (Hook 1 [0] ''css-b.css''), content = None\<rparr>,
     \<lparr>tagName = ''link'', ident = ''css-c.css'', className = ''main'',
        rel = ''stylesheet'', src = [], href = ''c.css'', data = [],
        loaded = Some ''true'', fn = Some (Hook 2 [0, 1] ''css-c.css''), content = None\<rparr>],
    doc = \<lparr>head = Some [1, 2], body = []\<rparr>, frames = [],
    topics = (\<lambda>_. [])(''css-c.css'' := [7], ''css-b.css'' := [], ''css-a.css'' := []),
    timers = [],
    trace =
      [Inserted 0, Inserted 1, Subscribed ''css-c.css'' 7, Inserted 2,
       Scheduled (Completion (Hook 1 [0] ''css-b.css'')), Marked 1,
       Cleared ''css-a.css'', Removed 0, Published ''css-b.css'',
       Cleared ''css-b.css'',
       Scheduled (Completion (Hook 2 [0, 1] ''css-c.css'')), Marked 2,
       Cleared ''css-a.css'']\<rparr>)"
  unfolding page_b_done_eq
  by (simp add: sample_defs)

subsection \<open>The new element and its snapshot\<close>



subsection \<open>Ignoring a load\<close>



subsection \<open>Replacing a named resource\<close>

text \<open>
  C3 (as stated, refuted). The claim says that once the load of a named resource
  completes, at most one element of that type bears the name. On the sample page,
  \<^verbatim>\<open>c.css\<close> was loaded under the name \<^verbatim>\<open>'main'\<close> while \<^verbatim>\<open>b.css\<close> was loading; when
  \<^verbatim>\<open>b.css\<close> completes (without an exception) the elements of \<^verbatim>\<open>b.css\<close> and of
  \<^verbatim>\<open>c.css\<close> both bear the name.
\<close>

theorem C3_two_named_elements_after_completion:
  "tick False (onload 1 page_abc) = (None, page_b_done)
   \<and> truthy (dataset_get 1 page_b_done)
   \<and> query page_b_done ''link'' ''main'' = [1, 2]"
proof -
  have "tick False (onload 1 page_abc) = (None, page_b_done)"
    unfolding page_b_done_eq unfolding page_abc_eq by (simp add: sample_defs)
  moreover have "truthy (dataset_get 1 page_b_done)"
    unfolding page_b_done_eq by (simp add: truthy_def dataset_get_def)
  moreover have "query page_b_done ''link'' ''main'' = [1, 2]"
    unfolding page_b_done_eq by (simp add: query_def nodes_def is_space_def)
  ultimately show ?thesis by blast
qed

lemma page_static_b_eq: "page_static_b = \<lparr>heap =
       [\<lparr>tagName = ''link'', ident = ''old'', className = ''main print'',
         rel = ''stylesheet'', src = [], href = ''old.css'', data = [], loaded = None,
         fn = None, content = None\<rparr>,
        \<lparr>tagName = ''link'', ident = ''css-b.css'', className = ''main'',
         rel = ''stylesheet'', src = [], href = ''b.css'', data = [], loaded = None,
         fn = Some (Hook 1 [0] ''css-b.css''), content = None\<rparr>],
     doc = \<lparr>head = Some [0, 1], body = []\<rparr>, frames = [],
     topics = (\<lambda>_. []), timers = [], trace = [Inserted 1]\<rparr>"
  by (simp add: page_static_b_def page_static_def sample_defs)

text \<open>
  C3 (amended). Let the name be one plain class token, and let
  \<^verbatim>\<open>load(type, url, cb, name)\<close> create a new element. Its completion closure carries,
  as the elements to remove, exactly the snapshot taken before the load started: the
  elements of the document with the same tag that have the name among their class
  tokens. Right after the load, the elements that bear the name are those and the new
  one. When the closure first runs, with every snapshot element still in the document,
  it does not throw and the elements it removes from the document are exactly the
  snapshot: no snapshot element (so no element of a previously loaded same-named URL)
  remains, and every other element, in particular a same-named element added during the
  load, stays. If no same-named element was added during the load, the new element is
  then the only one of its type that bears the name.
\<close>

theorem C3_completion_removes_the_snapshot:
  assumes "type = ''js'' \<or> type = ''css''"
    and "plain_token name"
    and "refs_ok s"
    and "getElementById s (doc s) (identity h type url) = None"
    and "load h type url opt_callback (Some name) s = (ret, s1)"
    and "r = length (heap s)"
    and "tag = (if type = ''js'' then ''script'' else ''link'')"
    and "snap = query s tag name"
    and "k = Hook r snap (identity h type url)"
    and "\<not> truthy (dataset_get r s2)"
    and "\<forall>x \<in> set snap. x \<in> set (nodes (doc s2))"
    and "run_hook k s2 = (x, s3)"
  shows "ret = Some r \<and> fn (heap s1 ! r) = Some k
       \<and> set snap = {y \<in> set (nodes (doc s)).
            tagName (heap s ! y) = tag \<and> name \<in> set (class_tokens (className (heap s ! y)))}
       \<and> set (query s1 tag name) = insert r (set snap)
       \<and> x = None
       \<and> nodes (doc s3) = filter (\<lambda>y. y \<notin> set snap) (nodes (doc s2))
       \<and> (set (query s2 tag name) \<subseteq> insert r (set snap) \<longrightarrow> set (query s3 tag name) \<subseteq> {r})"
proof -
  note la = load_absent [OF assms(1) assms(4) assms(5) assms(6) refl refl]
  have ne: "name \<noteq> []"
    using assms(2) by (auto simp: plain_token_def)
  have snap: "snap = (if (case Some name of None \<Rightarrow> [] | Some n \<Rightarrow> n) \<noteq> []
      then query s (if type = ''js'' then ''script'' else ''link'')
             (case Some name of None \<Rightarrow> [] | Some n \<Rightarrow> n) else [])"
    using ne assms(7,8) by simp
  have d: "distinct snap"
    unfolding assms(8) using assms(3) by (intro query_distinct) (simp add: refs_ok_def)
  note first = run_hook_first [OF assms(10) d assms(11), of "identity h type url"]
  have lt: "\<forall>y \<in> set (nodes (doc s)). y < length (heap s)"
    using assms(3) by (simp add: refs_ok_def)
  have "ret = Some r" by (rule la(1))
  moreover have "fn (heap s1 ! r) = Some k"
    unfolding la(2) assms(9) snap using assms(6) by simp
  moreover have "set snap = {y \<in> set (nodes (doc s)).
      tagName (heap s ! y) = tag \<and> name \<in> set (class_tokens (className (heap s ! y)))}"
    unfolding assms(8) by (auto simp: query_def)
  moreover have "set (query s1 tag name) = insert r (set snap)"
  proof -
    have "className (heap s1 ! r) = name"
      unfolding la(2) using assms(6) by simp
    then have tok: "name \<in> set (class_tokens (className (heap s1 ! r)))"
      by (simp add: class_tokens_plain [OF assms(2)])
    have new: "tagName (heap s1 ! r) = tag"
      unfolding la(2) using assms(6,7) by simp
    have old: "heap s1 ! y = heap s ! y" if "y \<in> set (nodes (doc s))" for y
      unfolding la(2) using that lt by (simp add: nth_append)
    have fresh: "r \<notin> set (nodes (doc s))"
      using lt assms(6) by auto
    show ?thesis
      unfolding assms(8)
      using new tok old fresh
      by (auto simp: query_def la(3) nodes_insert_el_set)
  qed
  moreover have x: "x = None"
    using first assms(12) unfolding assms(9) by simp
  moreover have n: "nodes (doc s3) = filter (\<lambda>y. y \<notin> set snap) (nodes (doc s2))"
    using first assms(12) unfolding assms(9) by (auto simp: nodes_fold_remove_from)
  moreover have "set (query s3 tag name) \<subseteq> {r}"
    if sub: "set (query s2 tag name) \<subseteq> insert r (set snap)"
  proof
    fix y
    assume y: "y \<in> set (query s3 tag name)"
    have hp: "heap s3 = (heap s2)[r := (heap s2 ! r)\<lparr>loaded := Some ''true''\<rparr>]"
      using first assms(12) unfolding assms(9) by auto
    from y have "y \<in> set (nodes (doc s3))"
      and "tagName (heap s2 ! y) = tag"
      and "name \<in> set (class_tokens (className (heap s2 ! y)))"
      by (auto simp: query_def hp nth_marked)
    then have "y \<in> set (query s2 tag name)" and "y \<notin> set snap"
      by (auto simp: n query_def)
    with sub show "y \<in> {r}" by auto
  qed
  ultimately show ?thesis by blast
qed

theorem C3_named_swap_witness:
  "plain_token ''main''
   \<and> refs_ok page_a
   \<and> getElementById page_a (doc page_a) (identity sample_hash ''css'' ''b.css'') = None
   \<and> load sample_hash ''css'' ''b.css'' None (Some ''main'') page_a = (Some 1, page_ab)
   \<and> query page_a ''link'' ''main'' = [0]
   \<and> fn (heap page_ab ! 1) = Some (Hook 1 [0] ''css-b.css'')
   \<and> set (query page_ab ''link'' ''main'') = {0, 1}
   \<and> \<not> truthy (dataset_get 1 page_abc)
   \<and> nodes (doc page_abc) = [0, 1, 2]
   \<and> query page_abc ''link'' ''main'' = [0, 1, 2]
   \<and> run_hook (Hook 1 [0] ''css-b.css'') page_ab
        = (None, snd (run_hook (Hook 1 [0] ''css-b.css'') page_ab))
   \<and> nodes (doc (snd (run_hook (Hook 1 [0] ''css-b.css'') page_abc))) = [1, 2]
   \<and> set (query (snd (run_hook (Hook 1 [0] ''css-b.css'') page_ab)) ''link'' ''main'') \<subseteq> {1}
   \<and> className (heap page_static ! 0) = ''main print''
   \<and> load sample_hash ''css'' ''b.css'' None (Some ''main'') page_static = (Some 1, page_static_b)
   \<and> query page_static ''link'' ''main'' = [0]
   \<and> nodes (doc (snd (run_hook (Hook 1 [0] ''css-b.css'') page_static_b))) = [1]"
proof -
  have p1: "''css'' = ''js'' \<or> ''css'' = ''css''" by simp
  have p2: "plain_token ''main''"
    by (simp add: plain_token_def name_start_def name_char_def)
  have p3: "refs_ok page_a"
    unfolding page_a_eq by (simp add: refs_ok_def nodes_def)
  have p4: "getElementById page_a (doc page_a) (identity sample_hash ''css'' ''b.css'') = None"
    unfolding page_a_eq by (simp add: getElementById_def nodes_def identity_def sample_hash_def)
  have p5: "load sample_hash ''css'' ''b.css'' None (Some ''main'') page_a = (Some 1, page_ab)"
    unfolding page_ab_eq unfolding page_a_eq by (simp add: sample_defs)
  have p6: "1 = length (heap page_a)"
    unfolding page_a_eq by simp
  have p7: "''link'' = (if ''css'' = ''js'' then ''script'' else ''link'')" by simp
  have q: "query page_a ''link'' ''main'' = [0]"
    unfolding page_a_eq by (simp add: query_def nodes_def is_space_def)
  have p8: "[0] = query page_a ''link'' ''main''"
    by (simp add: q)
  have p9: "Hook 1 [0] ''css-b.css'' = Hook 1 [0] (identity sample_hash ''css'' ''b.css'')"
    by (simp add: identity_def sample_hash_def)
  have m: "\<not> truthy (dataset_get 1 page_abc)"
    unfolding page_abc_eq by (simp add: truthy_def dataset_get_def)
  have m': "\<not> truthy (dataset_get 1 page_ab)"
    unfolding page_ab_eq by (simp add: truthy_def dataset_get_def)
  have n: "nodes (doc page_abc) = [0, 1, 2]"
    unfolding page_abc_eq by (simp add: nodes_def)
  have n': "nodes (doc page_ab) = [0, 1]"
    unfolding page_ab_eq by (simp add: nodes_def)
  have a: "\<forall>x \<in> set [0]. x \<in> set (nodes (doc page_abc))"
    by (simp add: n)
  have a': "\<forall>x \<in> set [0]. x \<in> set (nodes (doc page_ab))"
    by (simp add: n')
  have qc: "query page_abc ''link'' ''main'' = [0, 1, 2]"
    unfolding page_abc_eq by (simp add: query_def nodes_def is_space_def)
  have qb: "set (query page_ab ''link'' ''main'') \<subseteq> insert 1 (set [0])"
    unfolding page_ab_eq by (simp add: query_def nodes_def is_space_def)
  note late = C3_completion_removes_the_snapshot
    [OF p1 p2 p3 p4 p5 p6 p7 p8 p9 m a surjective_pairing]
  note none = C3_completion_removes_the_snapshot
    [OF p1 p2 p3 p4 p5 p6 p7 p8 p9 m' a' surjective_pairing]
  from late have l1: "fn (heap page_ab ! 1) = Some (Hook 1 [0] ''css-b.css'')"
    by blast
  from late have "set (query page_ab ''link'' ''main'') = insert 1 (set [0])"
    by blast
  then have l1': "set (query page_ab ''link'' ''main'') = {0, 1}"
    by auto
  from late have l2: "nodes (doc (snd (run_hook (Hook 1 [0] ''css-b.css'') page_abc))) = [1, 2]"
    by (simp add: n del: run_hook.simps)
  from none have l3: "fst (run_hook (Hook 1 [0] ''css-b.css'') page_ab) = None"
    by blast
  then have l4: "run_hook (Hook 1 [0] ''css-b.css'') page_ab
        = (None, snd (run_hook (Hook 1 [0] ''css-b.css'') page_ab))"
    by (simp add: prod_eq_iff del: run_hook.simps)
  from none qb have l5:
    "set (query (snd (run_hook (Hook 1 [0] ''css-b.css'') page_ab)) ''link'' ''main'') \<subseteq> {1}"
    by blast
  have s0: "className (heap page_static ! 0) = ''main print''"
    by (simp add: page_static_def)
  have s3: "refs_ok page_static"
    by (simp add: page_static_def refs_ok_def nodes_def)
  have s4: "getElementById page_static (doc page_static) (identity sample_hash ''css'' ''b.css'') = None"
    by (simp add: page_static_def getElementById_def nodes_def identity_def sample_hash_def)
  have s5: "load sample_hash ''css'' ''b.css'' None (Some ''main'') page_static = (Some 1, page_static_b)"
    unfolding page_static_b_eq by (simp add: page_static_def sample_defs)
  have s6: "1 = length (heap page_static)"
    by (simp add: page_static_def)
  have sq: "query page_static ''link'' ''main'' = [0]"
    by (simp add: page_static_def query_def nodes_def is_space_def)
  have s8: "[0] = query page_static ''link'' ''main''"
    by (simp add: sq)
  have sm: "\<not> truthy (dataset_get 1 page_static_b)"
    unfolding page_static_b_eq by (simp add: truthy_def dataset_get_def)
  have sn: "nodes (doc page_static_b) = [0, 1]"
    unfolding page_static_b_eq by (simp add: nodes_def)
  have sa: "\<forall>x \<in> set [0]. x \<in> set (nodes (doc page_static_b))"
    by (simp add: sn)
  note static = C3_completion_removes_the_snapshot
    [OF p1 p2 s3 s4 s5 s6 p7 s8 p9 sm sa surjective_pairing]
  from static have l6: "nodes (doc (snd (run_hook (Hook 1 [0] ''css-b.css'') page_static_b))) = [1]"
    by (simp add: sn del: run_hook.simps)
  from p2 p3 p4 p5 q l1 l1' m n qc l4 l2 l5 s0 s5 sq l6 show ?thesis
    by blast
qed

subsection \<open>The completion closure on a snapshot element that is gone\<close>

text \<open>
  C2 (the code departs from the claim). On the sample page the snapshot of \<^verbatim>\<open>c.css\<close>
  is \<open>[0, 1]\<close>, and element 0 has already been removed by the completion of
  \<^verbatim>\<open>b.css\<close>. When \<^verbatim>\<open>c.css\<close> completes, the first invocation of its closure sets the
  marker, clears the topic of element 0 and then throws a TypeError on
  \<^verbatim>\<open>els[i].parentNode.removeChild\<close>: element 1 is not removed, the topic of
  \<^verbatim>\<open>c.css\<close> is never published and its callback 7 stays subscribed without ever being
  called. Every later invocation finds the marker set and does nothing.
  (Lemma \<open>run_hook_first\<close> is the behaviour the claim describes, which holds whenever
  all snapshot elements are still in the document; \<open>run_hook_again\<close> is the guard.)
\<close>

theorem C2_completion_throws_before_publish:
  "\<not> attached 0 page_b_done
   \<and> \<not> truthy (dataset_get 2 page_b_done)
   \<and> fst (tick False (onload 2 page_b_done)) = Some TypeError
   \<and> trace (snd (tick False (onload 2 page_b_done))) = trace page_b_done @
        [Scheduled (Completion (Hook 2 [0, 1] ''css-c.css'')), Marked 2, Cleared ''css-a.css'']
   \<and> topics (snd (tick False (onload 2 page_b_done))) ''css-c.css'' = [7]
   \<and> nodes (doc (snd (tick False (onload 2 page_b_done)))) = [1, 2]
   \<and> truthy (dataset_get 2 (snd (tick False (onload 2 page_b_done))))
   \<and> run_hook (Hook 2 [0, 1] ''css-c.css'') (snd (tick False (onload 2 page_b_done)))
        = (None, snd (tick False (onload 2 page_b_done)))"
proof -
  have "\<not> attached 0 page_b_done \<and> \<not> truthy (dataset_get 2 page_b_done)"
    unfolding page_b_done_eq by (simp add: attached_def nodes_def truthy_def dataset_get_def)
  moreover have "fst (tick False (onload 2 page_b_done)) = Some TypeError"
    unfolding completion_of_c_eq by simp
  moreover have "trace (snd (tick False (onload 2 page_b_done))) = trace page_b_done @
        [Scheduled (Completion (Hook 2 [0, 1] ''css-c.css'')), Marked 2, Cleared ''css-a.css'']"
    unfolding completion_of_c_eq unfolding page_b_done_eq by simp
  moreover have "topics (snd (tick False (onload 2 page_b_done))) ''css-c.css'' = [7]"
    unfolding completion_of_c_eq by simp
  moreover have "nodes (doc (snd (tick False (onload 2 page_b_done)))) = [1, 2]"
    unfolding completion_of_c_eq by (simp add: nodes_def)
  moreover have m: "truthy (dataset_get 2 (snd (tick False (onload 2 page_b_done))))"
    unfolding completion_of_c_eq by (simp add: truthy_def dataset_get_def)
  moreover have "run_hook (Hook 2 [0, 1] ''css-c.css'') (snd (tick False (onload 2 page_b_done)))
        = (None, snd (tick False (onload 2 page_b_done)))"
    using m by (rule run_hook_again)
  ultimately show ?thesis by blast
qed

subsection \<open>At most one element per Identity\<close>

lemma keeps_at_most_one:
  assumes "refs_ok s" and "count_id s i \<le> 1"
    and "length (heap s) \<le> length (heap s')"
    and "\<And>x. x < length (heap s) \<Longrightarrow> ident (heap s' ! x) = ident (heap s ! x)"
    and "nodes (doc s') = filter Q (nodes (doc s))"
  shows "refs_ok s' \<and> count_id s' i \<le> 1"
proof -
  have lt: "\<forall>x \<in> set (nodes (doc s)). x < length (heap s)"
    using assms(1) by (simp add: refs_ok_def)
  have e: "filter (\<lambda>r. ident (heap s' ! r) = i) (filter Q (nodes (doc s)))
      = filter Q (filter (\<lambda>r. ident (heap s ! r) = i) (nodes (doc s)))"
    using lt assms(4) by (auto intro!: filter_cong)
  have "count_id s' i = length (filter Q (filter (\<lambda>r. ident (heap s ! r) = i) (nodes (doc s))))"
    unfolding count_id_def assms(5) e ..
  also have "\<dots> \<le> length (filter (\<lambda>r. ident (heap s ! r) = i) (nodes (doc s)))"
    by (rule length_filter_le)
  finally have "count_id s' i \<le> count_id s i"
    by (simp add: count_id_def)
  moreover have "refs_ok s'"
    using assms(1,3) lt by (auto simp: refs_ok_def assms(5))
  ultimately show ?thesis using assms(2) by simp
qed

lemma inserts_at_most_one:
  assumes "refs_ok s" and "count_id s i \<le> 1"
    and "heap s' = heap s @ e # es"
    and "r = length (heap s)"
    and "set (nodes (doc s')) = insert r (set (nodes (doc s)))"
    and "distinct (nodes (doc s')) \<longleftrightarrow> r \<notin> set (nodes (doc s)) \<and> distinct (nodes (doc s))"
    and "\<And>A. length (filter A (nodes (doc s'))) = (if A r then 1 else 0) + length (filter A (nodes (doc s)))"
    and "ident e = i \<Longrightarrow> getElementById s (doc s) i = None"
  shows "refs_ok s' \<and> count_id s' i \<le> 1"
proof -
  have lt: "\<forall>x \<in> set (nodes (doc s)). x < length (heap s)"
    using assms(1) by (simp add: refs_ok_def)
  then have fresh: "r \<notin> set (nodes (doc s))"
    using assms(4) by auto
  have same: "filter (\<lambda>x. ident (heap s' ! x) = i) (nodes (doc s))
      = filter (\<lambda>x. ident (heap s ! x) = i) (nodes (doc s))"
    using lt by (auto intro!: filter_cong simp: assms(3) nth_append)
  have new: "heap s' ! r = e"
    by (simp add: assms(3,4))
  have c: "count_id s' i = (if ident e = i then 1 else 0) + count_id s i"
    by (simp add: count_id_def assms(7) same new)
  have "count_id s' i \<le> 1"
  proof (cases "ident e = i")
    case True
    from assms(8) [OF True] have "count_id s i = 0"
      by (auto simp: getElementById_None count_id_def filter_empty_conv)
    with c show ?thesis by simp
  next
    case False
    with c assms(2) show ?thesis by simp
  qed
  moreover have "refs_ok s'"
    using assms(1) lt fresh by (auto simp: refs_ok_def assms(3,4,5,6))
  ultimately show ?thesis by simp
qed

lemma load_keeps:
  assumes "refs_ok s" and "count_id s i \<le> 1"
  shows "refs_ok (snd (load h type url cb name s)) \<and> count_id (snd (load h type url cb name s)) i \<le> 1"
proof (cases "(type = ''js'' \<or> type = ''css'') \<and> getElementById s (doc s) (identity h type url) = None")
  case True
  note la = load_absent [OF conjunct1 [OF True] conjunct2 [OF True] surjective_pairing refl refl refl]
  show ?thesis
  proof (rule inserts_at_most_one [OF assms la(2) refl])
    show "set (nodes (doc (snd (load h type url cb name s))))
        = insert (length (heap s)) (set (nodes (doc s)))"
      by (simp add: la(3) nodes_insert_el_set)
    show "distinct (nodes (doc (snd (load h type url cb name s))))
        \<longleftrightarrow> length (heap s) \<notin> set (nodes (doc s)) \<and> distinct (nodes (doc s))"
      by (simp add: la(3) nodes_insert_el_distinct)
    show "length (filter A (nodes (doc (snd (load h type url cb name s)))))
        = (if A (length (heap s)) then 1 else 0) + length (filter A (nodes (doc s)))" for A
      by (simp add: la(3) nodes_insert_el_count)
    show "getElementById s (doc s) i = None"
      if "ident \<lparr>tagName = (if type = ''js'' then ''script'' else ''link''),
            ident = identity h type url,
            className = (case name of None \<Rightarrow> [] | Some n \<Rightarrow> n),
            rel = (if type = ''css'' then ''stylesheet'' else []),
            src = (if type = ''js'' then url else []),
            href = (if type = ''js'' then [] else url),
            data = [], loaded = None,
            fn = Some (Hook (length (heap s))
               (if (case name of None \<Rightarrow> [] | Some n \<Rightarrow> n) \<noteq> []
                then query s (if type = ''js'' then ''script'' else ''link'')
                       (case name of None \<Rightarrow> [] | Some n \<Rightarrow> n) else [])
               (identity h type url)),
            content = None\<rparr> = i"
      using that True by simp
  qed
next
  case False
  have "heap (snd (load h type url cb name s)) = heap s \<and> doc (snd (load h type url cb name s)) = doc s"
    using False
    by (auto simp: load_def Let_def pubsub_subscribe_def split: option.splits)
  then show ?thesis
    using assms by (simp add: refs_ok_def count_id_def)
qed

lemma unload_priv_keeps:
  assumes "refs_ok s" and "count_id s i \<le> 1"
  shows "refs_ok (snd (unload_priv els s)) \<and> count_id (snd (unload_priv els s)) i \<le> 1"
proof -
  from unload_priv_nodes_sub [of els s] obtain ys where
    "nodes (doc (snd (unload_priv els s))) = filter (\<lambda>x. x \<notin> set ys) (nodes (doc s))" by blast
  then show ?thesis
    by (intro keeps_at_most_one [OF assms]) (simp_all add: unload_priv_heap)
qed

lemma run_hook_keeps:
  assumes "refs_ok s" and "count_id s i \<le> 1"
  shows "refs_ok (snd (run_hook k s)) \<and> count_id (snd (run_hook k s)) i \<le> 1"
proof (cases k)
  case (Hook el snap j)
  from run_hook_nodes_sub [of el snap j s] obtain ys where
    ys: "nodes (doc (snd (run_hook k s))) = filter (\<lambda>x. x \<notin> set ys) (nodes (doc s))"
    unfolding Hook by blast
  show ?thesis
  proof (cases "truthy (dataset_get el s)")
    case True
    then show ?thesis using assms by (simp add: Hook)
  next
    case False
    from run_hook_heap [OF False, of snap j] ys show ?thesis
      by (intro keeps_at_most_one [OF assms]) (simp_all add: Hook nth_marked)
  qed
qed

lemma deferred_prefetch_keeps:
  assumes "refs_ok s" and "count_id s i \<le> 1"
  shows "refs_ok (snd (deferred_prefetch is_ie type url j f s))
       \<and> count_id (snd (deferred_prefetch is_ie type url j f s)) i \<le> 1"
proof (rule keeps_at_most_one [OF assms, where Q = "\<lambda>_. True"])
  show "length (heap s) \<le> length (heap (snd (deferred_prefetch is_ie type url j f s)))"
    by (auto simp: deferred_prefetch_def load_priv_def Let_def split: option.splits)
  show "ident (heap (snd (deferred_prefetch is_ie type url j f s)) ! x) = ident (heap s ! x)"
    if "x < length (heap s)" for x
    using that
    by (auto simp: deferred_prefetch_def load_priv_def Let_def nth_append split: option.splits)
  show "nodes (doc (snd (deferred_prefetch is_ie type url j f s))) = filter (\<lambda>_. True) (nodes (doc s))"
    by (auto simp: deferred_prefetch_def load_priv_def Let_def split: option.splits)
qed

lemma prefetch_keeps:
  assumes "refs_ok s" and "count_id s i \<le> 1"
  shows "refs_ok (snd (prefetch h type url s)) \<and> count_id (snd (prefetch h type url s)) i \<le> 1"
proof (cases "(type = ''js'' \<or> type = ''css'') \<and> getElementById s (doc s) (identity h type url) = None
    \<and> getElementById s (doc s) (type @ ''-prefetch'') = None")
  case True
  let ?s' = "snd (prefetch h type url s)"
  let ?e = "\<lparr>tagName = ''iframe'', ident = type @ ''-prefetch'', className = [], rel = [], src = [],
             href = [], data = [], loaded = None, fn = None,
             content = Some (length (frames s))\<rparr>"
  have hp: "heap ?s' = heap s @ ?e # []"
    and dc: "nodes (doc ?s') = nodes (doc s) @ [length (heap s)]"
    using True by (auto simp: prefetch_def createIframe_def setTimeout_def Let_def nodes_def)
  have lt: "\<forall>x \<in> set (nodes (doc s)). x < length (heap s)"
    using assms(1) by (simp add: refs_ok_def)
  show ?thesis
  proof (rule inserts_at_most_one [OF assms hp refl])
    show "set (nodes (doc ?s')) = insert (length (heap s)) (set (nodes (doc s)))"
      by (simp add: dc)
    show "distinct (nodes (doc ?s')) \<longleftrightarrow> length (heap s) \<notin> set (nodes (doc s)) \<and> distinct (nodes (doc s))"
      by (auto simp: dc)
    show "length (filter A (nodes (doc ?s')))
        = (if A (length (heap s)) then 1 else 0) + length (filter A (nodes (doc s)))" for A
      by (simp add: dc)
    show "getElementById s (doc s) i = None" if "ident ?e = i"
      using that True by auto
  qed
next
  case False
  have "heap (snd (prefetch h type url s)) = heap s \<and> doc (snd (prefetch h type url s)) = doc s"
    using False
    by (auto simp: prefetch_def Let_def setTimeout_def split: option.splits)
  then show ?thesis
    using assms by (simp add: refs_ok_def count_id_def)
qed

lemma step_keeps:
  assumes "refs_ok s" and "count_id s i \<le> 1"
  shows "refs_ok (step h is_ie a s) \<and> count_id (step h is_ie a s) i \<le> 1"
proof (cases a)
  case (Load type url cb name)
  then show ?thesis using load_keeps [OF assms] by simp
next
  case (Unload type url)
  then show ?thesis
    using unload_priv_keeps [OF assms] assms
    by (simp add: unload_def del: unload_priv.simps split: option.splits)
next
  case (Ignore type url)
  then show ?thesis
    using assms by (simp add: ignore_def pubsub_clear_def refs_ok_def count_id_def)
next
  case (Prefetch type url)
  then show ?thesis using prefetch_keeps [OF assms] by simp
next
  case (Onload r)
  then show ?thesis
    using assms
    by (simp add: onload_def setTimeout_def refs_ok_def count_id_def split: option.splits)
next
  case (Onreadystatechange r readyState)
  then show ?thesis
    using assms
    by (simp add: onreadystatechange_def onload_def setTimeout_def refs_ok_def count_id_def
        split: option.splits)
next
  case Tick
  show ?thesis
  proof (cases "timers s")
    case Nil
    then show ?thesis using assms Tick by (simp add: tick_def)
  next
    case (Cons t ts)
    have p: "refs_ok (s\<lparr>timers := ts\<rparr>)" "count_id (s\<lparr>timers := ts\<rparr>) i \<le> 1"
      using assms by (simp_all add: refs_ok_def count_id_def)
    show ?thesis
    proof (cases t)
      case (Completion k)
      then show ?thesis
        using run_hook_keeps [OF p] Tick Cons by (simp add: tick_def del: run_hook.simps)
    next
      case (Deferred_prefetch type url j f)
      then show ?thesis
        using deferred_prefetch_keeps [OF p] Tick Cons by (simp add: tick_def)
    qed
  qed
qed

lemma run_keeps:
  "refs_ok s \<Longrightarrow> count_id s i \<le> 1 \<Longrightarrow>
     refs_ok (run h is_ie acts s) \<and> count_id (run h is_ie acts s) i \<le> 1"
proof (induction acts arbitrary: s)
  case Nil
  then show ?case by simp
next
  case (Cons a acts)
  from step_keeps [OF Cons.prems] Cons.IH show ?case by simp
qed
text \<open>
  C1. Take a valid type, a URL and a page on which at most one element of the document
  has the Identity as its id. After any sequence of calls of the public functions, of
  handler invocations and of scheduling ticks (in particular, after any sequence of
  \<^verbatim>\<open>load\<close> calls for that type and URL, whatever completes in between), still at most
  one element of the document has that id. And in any state, a \<^verbatim>\<open>load\<close> call that finds
  the element present returns that element and does not reach the Loader: it calls the
  callback if the element is loaded, subscribes it if the element is loading, and
  changes nothing else, so the heap of elements, the documents and the timer queue are
  as before (no second element, no second request).
\<close>

theorem C1_at_most_one_element:
  assumes "type = ''js'' \<or> type = ''css''"
    and "i = identity h type url"
    and "refs_ok s"
    and "count_id s i \<le> 1"
    and "ld = load h type url opt_callback opt_name s'"
  shows "count_id (run h is_ie acts s) i \<le> 1
       \<and> (getElementById s' (doc s') i = Some r \<longrightarrow>
            ld = (Some r,
                  case opt_callback of
                    None \<Rightarrow> s'
                  | Some cb \<Rightarrow>
                      if truthy (dataset_get r s') then s'\<lparr>trace := trace s' @ [Called cb]\<rparr>
                      else pubsub_subscribe i cb s')
          \<and> heap (snd ld) = heap s' \<and> doc (snd ld) = doc s' \<and> frames (snd ld) = frames s'
          \<and> timers (snd ld) = timers s')"
proof -
  have "count_id (run h is_ie acts s) i \<le> 1"
    using run_keeps [OF assms(3,4)] by blast
  moreover have "ld = (Some r,
                  case opt_callback of
                    None \<Rightarrow> s'
                  | Some cb \<Rightarrow>
                      if truthy (dataset_get r s') then s'\<lparr>trace := trace s' @ [Called cb]\<rparr>
                      else pubsub_subscribe i cb s')"
    if "getElementById s' (doc s') i = Some r"
    using that assms(1,2,5) by (auto simp: load_def Let_def split: option.splits)
  moreover have "heap (snd ld) = heap s' \<and> doc (snd ld) = doc s' \<and> frames (snd ld) = frames s'
          \<and> timers (snd ld) = timers s'"
    if "getElementById s' (doc s') i = Some r"
    using that assms(1,2,5)
    by (auto simp: load_def Let_def pubsub_subscribe_def split: option.splits)
  ultimately show ?thesis by blast
qed

theorem C1_at_most_one_witness:
  "refs_ok empty_page
   \<and> count_id empty_page ''js-a.js'' \<le> 1
   \<and> count_id (run sample_hash False
        [Load ''js'' ''a.js'' (Some 1) None, Load ''js'' ''a.js'' (Some 2) (Some ''main''),
         Onload 0, Tick, Load ''js'' ''a.js'' (Some 3) None] empty_page) ''js-a.js'' \<le> 1
   \<and> getElementById page_loading (doc page_loading) ''js-a.js'' = Some 0
   \<and> load sample_hash ''js'' ''a.js'' (Some 2) (Some ''main'') page_loading
        = (Some 0, pubsub_subscribe ''js-a.js'' 2 page_loading)
   \<and> heap (snd (load sample_hash ''js'' ''a.js'' (Some 2) (Some ''main'') page_loading))
        = heap page_loading
   \<and> doc (snd (load sample_hash ''js'' ''a.js'' (Some 2) (Some ''main'') page_loading))
        = doc page_loading
   \<and> timers (snd (load sample_hash ''js'' ''a.js'' (Some 2) (Some ''main'') page_loading))
        = timers page_loading"
proof -
  have p1: "''js'' = ''js'' \<or> ''js'' = ''css''" by simp
  have p2: "''js-a.js'' = identity sample_hash ''js'' ''a.js''"
    by (simp add: identity_def sample_hash_def)
  have p3: "refs_ok empty_page"
    by (simp add: refs_ok_def empty_page_def nodes_def)
  have p4: "count_id empty_page ''js-a.js'' \<le> 1"
    by (simp add: count_id_def empty_page_def nodes_def)
  have g: "getElementById page_loading (doc page_loading) ''js-a.js'' = Some 0"
    unfolding page_loading_eq by (simp add: getElementById_def nodes_def)
  have m: "\<not> truthy (dataset_get 0 page_loading)"
    unfolding page_loading_eq by (simp add: truthy_def dataset_get_def)
  note c = C1_at_most_one_element
    [where s' = page_loading and opt_callback = "Some 2" and opt_name = "Some ''main''"
       and is_ie = False and r = 0
       and acts = "[Load ''js'' ''a.js'' (Some 1) None, Load ''js'' ''a.js'' (Some 2) (Some ''main''),
         Onload 0, Tick, Load ''js'' ''a.js'' (Some 3) None]",
     OF p1 p2 p3 p4 refl]
  from c g m have "load sample_hash ''js'' ''a.js'' (Some 2) (Some ''main'') page_loading
        = (Some 0, pubsub_subscribe ''js-a.js'' 2 page_loading)"
    by simp
  with c g p3 p4 show ?thesis
    by blast
qed

subsection \<open>Prefetching\<close>

lemma page_prefetching_eq: "page_prefetching = \<lparr>heap =
    [\<lparr>tagName = ''iframe'', ident = ''js-prefetch'', className = [],
        rel = [], src = [], href = [], data = [], loaded = None, fn = None,
        content = Some 0\<rparr>],
    doc = \<lparr>head = Some [], body = [0]\<rparr>,
    frames = [\<lparr>head = Some [], body = []\<rparr>], topics = (\<lambda>_. []),
    timers = [Deferred_prefetch ''js'' ''a.js'' ''js-a.js'' 0],
    trace = [Inserted 0, Scheduled (Deferred_prefetch ''js'' ''a.js'' ''js-a.js'' 0)]\<rparr>"
  by (simp add: page_prefetching_def sample_defs)

lemma page_prefetched_eq: "page_prefetched = \<lparr>heap =
    [\<lparr>tagName = ''iframe'', ident = ''js-prefetch'', className = [],
        rel = [], src = [], href = [], data = [], loaded = None, fn = None,
        content = Some 0\<rparr>,
     \<lparr>tagName = ''object'', ident = ''js-a.js'', className = [], rel = [],
        src = [], href = [], data = ''a.js'', loaded = None, fn = None,
        content = None\<rparr>],
    doc = \<lparr>head = Some [], body = [0]\<rparr>,
    frames = [\<lparr>head = Some [], body = [1]\<rparr>], topics = (\<lambda>_. []), timers = [],
    trace = [Inserted 0, Scheduled (Deferred_prefetch ''js'' ''a.js'' ''js-a.js'' 0),
      Inserted 1]\<rparr>"
  unfolding page_prefetched_def page_prefetching_eq
  by (simp add: sample_defs)

lemma page_two_contexts_eq: "page_two_contexts = \<lparr>heap =
    [\<lparr>tagName = ''iframe'', ident = ''js-prefetch'', className = [],
        rel = [], src = [], href = [], data = [], loaded = None, fn = None,
        content = Some 0\<rparr>,
     \<lparr>tagName = ''object'', ident = ''js-a.js'', className = [], rel = [],
        src = [], href = [], data = ''a.js'', loaded = None, fn = None,
        content = None\<rparr>,
     \<lparr>tagName = ''iframe'', ident = ''css-prefetch'', className = [],
        rel = [], src = [], href = [], data = [], loaded = None, fn = None,
        content = Some 1\<rparr>],
    doc = \<lparr>head = Some [], body = [0, 2]\<rparr>,
    frames = [\<lparr>head = Some [], body = [1]\<rparr>, \<lparr>head = Some [], body = []\<rparr>],
    topics = (\<lambda>_. []),
    timers = [Deferred_prefetch ''css'' ''b.css'' ''css-b.css'' 2],
    trace = [Inserted 0, Scheduled (Deferred_prefetch ''js'' ''a.js'' ''js-a.js'' 0),
      Inserted 1, Inserted 2,
      Scheduled (Deferred_prefetch ''css'' ''b.css'' ''css-b.css'' 2)]\<rparr>"
  unfolding page_two_contexts_def page_prefetched_eq
  by (simp add: sample_defs)

text \<open>The resource is in the main document: nothing happens.\<close>

lemma prefetch_present:
  assumes "type = ''js'' \<or> type = ''css''"
    and "getElementById s (doc s) (identity h type url) \<noteq> None"
  shows "prefetch h type url s = (None, s)"
  using assms by (auto simp: prefetch_def)

text \<open>
  The context of the type exists: it is not created again; the fetch is queued unless
  the context already holds an element with the Identity.
\<close>

lemma prefetch_context_exists:
  assumes "type = ''js'' \<or> type = ''css''"
    and "getElementById s (doc s) (identity h type url) = None"
    and "getElementById s (doc s) (type @ ''-prefetch'') = Some c"
    and "content (heap s ! c) = Some k"
  shows "prefetch h type url s =
     (None, if getElementById s (frames s ! k) (identity h type url) \<noteq> None then s
            else setTimeout (Deferred_prefetch type url (identity h type url) c) s)"
  using assms by (auto simp: prefetch_def)

text \<open>No context of the type yet: one is created, and the fetch is queued.\<close>

lemma prefetch_creates_context:
  assumes "type = ''js'' \<or> type = ''css''"
    and "getElementById s (doc s) (identity h type url) = None"
    and "getElementById s (doc s) (type @ ''-prefetch'') = None"
  shows "prefetch h type url s =
     (None, s\<lparr>heap := heap s @
                 [\<lparr>tagName = ''iframe'', ident = type @ ''-prefetch'', className = [], rel = [],
                   src = [], href = [], data = [], loaded = None, fn = None,
                   content = Some (length (frames s))\<rparr>],
              doc := (doc s)\<lparr>body := body (doc s) @ [length (heap s)]\<rparr>,
              frames := frames s @ [\<lparr>head = Some [], body = []\<rparr>],
              timers := timers s @
                 [Deferred_prefetch type url (identity h type url) (length (heap s))],
              trace := trace s @
                 [Inserted (length (heap s)),
                  Scheduled (Deferred_prefetch type url (identity h type url) (length (heap s)))]\<rparr>)"
  using assms by (auto simp: prefetch_def createIframe_def setTimeout_def Let_def)

text \<open>
  The deferred body, for a context \<open>f\<close> with content document \<open>k\<close>: the main document,
  the topics and the timer queue are untouched; a new element with the Identity as its
  id, and without completion function, stands in the content document. For a script it
  is an \<^verbatim>\<open>object\<close> whose \<^verbatim>\<open>data\<close> is the URL (on IE: an \<^verbatim>\<open>object\<close> without data, the
  request being made by a \<^verbatim>\<open>script\<close> element that is created and inserted nowhere);
  for a stylesheet it is the \<^verbatim>\<open>link\<close> the Loader makes.
\<close>

lemma deferred_prefetch_in_context:
  assumes "type = ''js'' \<or> type = ''css''"
    and "content (heap t ! f) = Some k" and "k < length (frames t)"
    and "deferred_prefetch is_ie type url i f t = (y, t1)"
    and "r = length (heap t)"
  shows "y = None \<and> doc t1 = doc t \<and> topics t1 = topics t \<and> timers t1 = timers t
       \<and> r \<in> set (nodes (frames t1 ! k))
       \<and> ident (heap t1 ! r) = i \<and> fn (heap t1 ! r) = None
       \<and> tagName (heap t1 ! r) = (if type = ''js'' then ''object'' else ''link'')
       \<and> data (heap t1 ! r) = (if type = ''js'' \<and> \<not> is_ie then url else [])
       \<and> href (heap t1 ! r) = (if type = ''js'' then [] else url)
       \<and> heap t1 = heap t @ [heap t1 ! r] @
            (if type = ''js'' \<and> is_ie
             then [\<lparr>tagName = ''script'', ident = [], className = [], rel = [], src = url,
                    href = [], data = [], loaded = None, fn = None, content = None\<rparr>]
             else [])"
proof (cases "type = ''js''")
  case True
  with assms(2-5) show ?thesis
    by (auto simp: deferred_prefetch_def Let_def nodes_def nth_append)
next
  case False
  with assms have css: "type = ''css''" by simp
  with assms(2-5) show ?thesis
    by (auto simp: deferred_prefetch_def load_priv_def Let_def nodes_insert_el_set nth_append)
qed
text \<open>
  C7 (as stated, refuted). The claim says that \<^verbatim>\<open>prefetch\<close> keeps a single shared
  context, one per document, under a fixed key. The key is \<^verbatim>\<open>type + '-prefetch'\<close>: on
  a page where the context of the scripts exists (element 0, key \<^verbatim>\<open>js-prefetch\<close>),
  prefetching a stylesheet does not share it but creates a second context (element 2,
  key \<^verbatim>\<open>css-prefetch\<close>) with a second content document.
\<close>

theorem C7_second_context_for_the_other_type:
  "getElementById page_prefetched (doc page_prefetched) ''js-prefetch'' = Some 0
   \<and> prefetch sample_hash ''css'' ''b.css'' page_prefetched = (None, page_two_contexts)
   \<and> nodes (doc page_two_contexts) = [0, 2]
   \<and> tagName (heap page_two_contexts ! 0) = ''iframe''
   \<and> ident (heap page_two_contexts ! 0) = ''js-prefetch''
   \<and> content (heap page_two_contexts ! 0) = Some 0
   \<and> tagName (heap page_two_contexts ! 2) = ''iframe''
   \<and> ident (heap page_two_contexts ! 2) = ''css-prefetch''
   \<and> content (heap page_two_contexts ! 2) = Some 1
   \<and> length (frames page_two_contexts) = 2"
proof -
  have "getElementById page_prefetched (doc page_prefetched) ''js-prefetch'' = Some 0"
    unfolding page_prefetched_eq by (simp add: getElementById_def nodes_def)
  moreover have "prefetch sample_hash ''css'' ''b.css'' page_prefetched = (None, page_two_contexts)"
    unfolding page_two_contexts_eq unfolding page_prefetched_eq by (simp add: sample_defs)
  moreover have "nodes (doc page_two_contexts) = [0, 2]"
    unfolding page_two_contexts_eq by (simp add: nodes_def)
  moreover have "tagName (heap page_two_contexts ! 0) = ''iframe''
      \<and> ident (heap page_two_contexts ! 0) = ''js-prefetch''
      \<and> content (heap page_two_contexts ! 0) = Some 0
      \<and> tagName (heap page_two_contexts ! 2) = ''iframe''
      \<and> ident (heap page_two_contexts ! 2) = ''css-prefetch''
      \<and> content (heap page_two_contexts ! 2) = Some 1
      \<and> length (frames page_two_contexts) = 2"
    unfolding page_two_contexts_eq by simp
  ultimately show ?thesis by blast
qed

text \<open>
  C7 (amended). \<^verbatim>\<open>prefetch(type, url)\<close> with a valid type does nothing when an element
  with the Identity is in the main document. Otherwise it looks for the context of the
  type, the element with the key \<^verbatim>\<open>type + '-prefetch'\<close>: there is one such context per
  resource type, not one per document. If the context exists and an element with the
  Identity is inside it, \<^verbatim>\<open>prefetch\<close> does nothing; if the context exists without such
  an element, only the fetch is queued; if the context does not exist, it is created
  (one new iframe with the key, appended to the main document, with an empty content
  document) and the fetch is queued. The queued fetch, when its tick comes, puts the
  fetching element into the content document and leaves the main document, the topics
  and the timer queue untouched: nothing is executed or applied to the main document.
  On a page with at most one element under the key, there is still at most one after
  any sequence of calls, handler invocations and ticks.
\<close>

theorem C7_prefetch_uses_the_context_of_the_type:
  assumes "type = ''js'' \<or> type = ''css''"
    and "i = identity h type url"
    and "key = type @ ''-prefetch''"
    and "deferred_prefetch is_ie type url i f t = (y, t1)"
    and "r = length (heap t)"
  shows "(getElementById s (doc s) i \<noteq> None \<longrightarrow> prefetch h type url s = (None, s))
       \<and> (getElementById s (doc s) i = None \<and> getElementById s (doc s) key = Some c
            \<and> content (heap s ! c) = Some k \<longrightarrow>
           prefetch h type url s =
             (None, if getElementById s (frames s ! k) i \<noteq> None then s
                    else setTimeout (Deferred_prefetch type url i c) s))
       \<and> (getElementById s (doc s) i = None \<and> getElementById s (doc s) key = None \<longrightarrow>
           prefetch h type url s =
             (None, s\<lparr>heap := heap s @
                        [\<lparr>tagName = ''iframe'', ident = key, className = [], rel = [],
                          src = [], href = [], data = [], loaded = None, fn = None,
                          content = Some (length (frames s))\<rparr>],
                      doc := (doc s)\<lparr>body := body (doc s) @ [length (heap s)]\<rparr>,
                      frames := frames s @ [\<lparr>head = Some [], body = []\<rparr>],
                      timers := timers s @ [Deferred_prefetch type url i (length (heap s))],
                      trace := trace s @
                        [Inserted (length (heap s)),
                         Scheduled (Deferred_prefetch type url i (length (heap s)))]\<rparr>))
       \<and> (content (heap t ! f) = Some k' \<and> k' < length (frames t) \<longrightarrow>
           y = None \<and> doc t1 = doc t \<and> topics t1 = topics t \<and> timers t1 = timers t
           \<and> r \<in> set (nodes (frames t1 ! k'))
           \<and> ident (heap t1 ! r) = i \<and> fn (heap t1 ! r) = None
           \<and> tagName (heap t1 ! r) = (if type = ''js'' then ''object'' else ''link'')
           \<and> data (heap t1 ! r) = (if type = ''js'' \<and> \<not> is_ie then url else [])
           \<and> href (heap t1 ! r) = (if type = ''js'' then [] else url)
           \<and> heap t1 = heap t @ [heap t1 ! r] @
                (if type = ''js'' \<and> is_ie
                 then [\<lparr>tagName = ''script'', ident = [], className = [], rel = [], src = url,
                        href = [], data = [], loaded = None, fn = None, content = None\<rparr>]
                 else []))
       \<and> (refs_ok s \<and> count_id s key \<le> 1 \<longrightarrow> count_id (run h is_ie acts s) key \<le> 1)"
proof -
  have "prefetch h type url s = (None, s)" if "getElementById s (doc s) i \<noteq> None"
    using prefetch_present [OF assms(1)] that unfolding assms(2) by simp
  moreover have "prefetch h type url s =
             (None, if getElementById s (frames s ! k) i \<noteq> None then s
                    else setTimeout (Deferred_prefetch type url i c) s)"
    if "getElementById s (doc s) i = None" and "getElementById s (doc s) key = Some c"
      and "content (heap s ! c) = Some k"
    using prefetch_context_exists [OF assms(1)] that unfolding assms(2,3) by simp
  moreover have "prefetch h type url s =
             (None, s\<lparr>heap := heap s @
                        [\<lparr>tagName = ''iframe'', ident = key, className = [], rel = [],
                          src = [], href = [], data = [], loaded = None, fn = None,
                          content = Some (length (frames s))\<rparr>],
                      doc := (doc s)\<lparr>body := body (doc s) @ [length (heap s)]\<rparr>,
                      frames := frames s @ [\<lparr>head = Some [], body = []\<rparr>],
                      timers := timers s @ [Deferred_prefetch type url i (length (heap s))],
                      trace := trace s @
                        [Inserted (length (heap s)),
                         Scheduled (Deferred_prefetch type url i (length (heap s)))]\<rparr>)"
    if "getElementById s (doc s) i = None" and "getElementById s (doc s) key = None"
    using prefetch_creates_context [OF assms(1)] that unfolding assms(2,3) by simp
  moreover note deferred_prefetch_in_context [OF assms(1) _ _ assms(4) assms(5), of k']
  moreover have "count_id (run h is_ie acts s) key \<le> 1" if "refs_ok s" and "count_id s key \<le> 1"
    using run_keeps [OF that] by blast
  ultimately show ?thesis by blast
qed
theorem C7_prefetch_witness:
  "prefetch sample_hash ''js'' ''a.js'' page_loading = (None, page_loading)
   \<and> prefetch sample_hash ''js'' ''a.js'' page_prefetched = (None, page_prefetched)
   \<and> prefetch sample_hash ''js'' ''c.js'' page_prefetched
        = (None, setTimeout (Deferred_prefetch ''js'' ''c.js'' ''js-c.js'' 0) page_prefetched)
   \<and> prefetch sample_hash ''js'' ''a.js'' empty_page = (None, page_prefetching)
   \<and> doc (snd (deferred_prefetch False ''js'' ''a.js'' ''js-a.js'' 0 page_prefetching))
        = doc page_prefetching
   \<and> 1 \<in> set (nodes (frames (snd (deferred_prefetch False ''js'' ''a.js'' ''js-a.js'' 0 page_prefetching)) ! 0))
   \<and> data (heap (snd (deferred_prefetch False ''js'' ''a.js'' ''js-a.js'' 0 page_prefetching)) ! 1)
        = ''a.js''
   \<and> count_id (run sample_hash False
        [Prefetch ''js'' ''a.js'', Tick, Prefetch ''js'' ''c.js'', Prefetch ''css'' ''b.css'', Tick]
        empty_page) ''js-prefetch'' \<le> 1"
proof -
  have p1: "''js'' = ''js'' \<or> ''js'' = ''css''" by simp
  have ia: "''js-a.js'' = identity sample_hash ''js'' ''a.js''"
    and ic: "''js-c.js'' = identity sample_hash ''js'' ''c.js''"
    by (simp_all add: identity_def sample_hash_def)
  have key: "''js-prefetch'' = ''js'' @ ''-prefetch''" by simp
  have r: "1 = length (heap page_prefetching)"
    unfolding page_prefetching_eq by simp
  note at_a = C7_prefetch_uses_the_context_of_the_type
    [where is_ie = False and f = 0 and t = page_prefetching and k' = 0 and c = 0 and k = 0
       and acts = "[Prefetch ''js'' ''a.js'', Tick, Prefetch ''js'' ''c.js'',
                    Prefetch ''css'' ''b.css'', Tick]",
     OF p1 ia key surjective_pairing r]
  note at_c = C7_prefetch_uses_the_context_of_the_type
    [where is_ie = False and f = 0 and t = page_prefetching and c = 0 and k = 0
       and s = page_prefetched,
     OF p1 ic key surjective_pairing r]
  have g1: "getElementById page_loading (doc page_loading) ''js-a.js'' \<noteq> None"
    unfolding page_loading_eq by (simp add: getElementById_def nodes_def)
  have g2: "getElementById page_prefetched (doc page_prefetched) ''js-a.js'' = None
      \<and> getElementById page_prefetched (doc page_prefetched) ''js-prefetch'' = Some 0
      \<and> content (heap page_prefetched ! 0) = Some 0"
    unfolding page_prefetched_eq by (simp add: getElementById_def nodes_def)
  have g2': "getElementById page_prefetched (frames page_prefetched ! 0) ''js-a.js'' \<noteq> None"
    unfolding page_prefetched_eq by (simp add: getElementById_def nodes_def)
  have g3: "getElementById page_prefetched (doc page_prefetched) ''js-c.js'' = None
      \<and> getElementById page_prefetched (doc page_prefetched) ''js-prefetch'' = Some 0
      \<and> content (heap page_prefetched ! 0) = Some 0"
    unfolding page_prefetched_eq by (simp add: getElementById_def nodes_def)
  have g3': "getElementById page_prefetched (frames page_prefetched ! 0) ''js-c.js'' = None"
    unfolding page_prefetched_eq by (simp add: getElementById_def nodes_def)
  have g4: "getElementById empty_page (doc empty_page) ''js-a.js'' = None
      \<and> getElementById empty_page (doc empty_page) ''js-prefetch'' = None"
    by (simp add: getElementById_def nodes_def empty_page_def)
  have g5: "content (heap page_prefetching ! 0) = Some 0 \<and> 0 < length (frames page_prefetching)"
    unfolding page_prefetching_eq by simp
  have g6: "refs_ok empty_page \<and> count_id empty_page ''js-prefetch'' \<le> 1"
    by (simp add: refs_ok_def count_id_def nodes_def empty_page_def)
  from at_a [where s = page_loading] g1
  have w1: "prefetch sample_hash ''js'' ''a.js'' page_loading = (None, page_loading)"
    by blast
  from at_a [where s = page_prefetched] g2
  have "prefetch sample_hash ''js'' ''a.js'' page_prefetched =
      (None, if getElementById page_prefetched (frames page_prefetched ! 0) ''js-a.js'' \<noteq> None
             then page_prefetched
             else setTimeout (Deferred_prefetch ''js'' ''a.js'' ''js-a.js'' 0) page_prefetched)"
    by blast
  with g2' have w2: "prefetch sample_hash ''js'' ''a.js'' page_prefetched = (None, page_prefetched)"
    by simp
  from at_c g3
  have "prefetch sample_hash ''js'' ''c.js'' page_prefetched =
      (None, if getElementById page_prefetched (frames page_prefetched ! 0) ''js-c.js'' \<noteq> None
             then page_prefetched
             else setTimeout (Deferred_prefetch ''js'' ''c.js'' ''js-c.js'' 0) page_prefetched)"
    by blast
  with g3' have w3: "prefetch sample_hash ''js'' ''c.js'' page_prefetched
        = (None, setTimeout (Deferred_prefetch ''js'' ''c.js'' ''js-c.js'' 0) page_prefetched)"
    by simp
  from at_a [where s = empty_page] g4
  have "prefetch sample_hash ''js'' ''a.js'' empty_page =
      (None, empty_page\<lparr>heap := heap empty_page @
                        [\<lparr>tagName = ''iframe'', ident = ''js-prefetch'', className = [], rel = [],
                          src = [], href = [], data = [], loaded = None, fn = None,
                          content = Some (length (frames empty_page))\<rparr>],
                      doc := (doc empty_page)\<lparr>body := body (doc empty_page) @ [length (heap empty_page)]\<rparr>,
                      frames := frames empty_page @ [\<lparr>head = Some [], body = []\<rparr>],
                      timers := timers empty_page @
                        [Deferred_prefetch ''js'' ''a.js'' ''js-a.js'' (length (heap empty_page))],
                      trace := trace empty_page @
                        [Inserted (length (heap empty_page)),
                         Scheduled (Deferred_prefetch ''js'' ''a.js'' ''js-a.js'' (length (heap empty_page)))]\<rparr>)"
    by blast
  then have w4: "prefetch sample_hash ''js'' ''a.js'' empty_page = (None, page_prefetching)"
    unfolding page_prefetching_eq by (simp add: empty_page_def)
  from at_a [where s = empty_page] g5
  have w5: "doc (snd (deferred_prefetch False ''js'' ''a.js'' ''js-a.js'' 0 page_prefetching))
        = doc page_prefetching
      \<and> 1 \<in> set (nodes (frames (snd (deferred_prefetch False ''js'' ''a.js'' ''js-a.js'' 0 page_prefetching)) ! 0))
      \<and> data (heap (snd (deferred_prefetch False ''js'' ''a.js'' ''js-a.js'' 0 page_prefetching)) ! 1)
        = (if ''js'' = ''js'' \<and> \<not> False then ''a.js'' else [])"
    by blast
  from at_a [where s = empty_page] g6
  have w6: "count_id (run sample_hash False
        [Prefetch ''js'' ''a.js'', Tick, Prefetch ''js'' ''c.js'', Prefetch ''css'' ''b.css'', Tick]
        empty_page) ''js-prefetch'' \<le> 1"
    by blast
  from w5 have w5': "data (heap (snd (deferred_prefetch False ''js'' ''a.js'' ''js-a.js'' 0 page_prefetching)) ! 1)
        = ''a.js''"
    by simp
  from w1 w2 w3 w4 w5 w5' w6 show ?thesis
    by blast
qed

end
